theory Spec2Isabelle
  imports Complex_Main "HOL-Library.Word"
begin

section \<open>env-crypto: the encryption engine of \<open>src/env-crypto.ts\<close>\<close>

text \<open>
  The engine is glue code around the JavaScript runtime: \<open>path\<close>, \<open>fs\<close>,
  \<open>JSON\<close> and \<open>crypto\<close>. The functions of the repository (\<open>validatePath\<close>,
  \<open>clearBuffer\<close>, \<open>encryptEnvFile\<close>, \<open>decryptEnvFile\<close> and the key-value
  parser inside it) are embedded statement by statement. What they call in the runtime
  is either modelled after the runtime's documentation (\<open>path\<close> as on POSIX,
  hexadecimal buffers, \<open>String.prototype\<close> functions, the regular expression of the
  parser) or, for \<open>JSON.parse\<close>, \<open>scryptSync\<close> and the AES-256-GCM cipher, taken as
  a parameter (record \<open>runtime\<close>) about which theorems assume a named contract.

  A JavaScript string is a list of code units. A \<^typ>\<open>char\<close> stands for one code unit in
  the range 0..255; code units above 255 are outside this model. A byte of a
  \<open>Buffer\<close> is an 8-bit word.
\<close>

subsection \<open>Strings\<close>

type_synonym byte = "8 word"

text \<open>\<open>s.startsWith(p)\<close> and \<open>s.endsWith(p)\<close>.\<close>

definition startsWith :: "string \<Rightarrow> string \<Rightarrow> bool" where
  "startsWith s p \<longleftrightarrow> take (length p) s = p"

definition endsWith :: "string \<Rightarrow> string \<Rightarrow> bool" where
  "endsWith s p \<longleftrightarrow> length p \<le> length s \<and> drop (length s - length p) s = p"

text \<open>\<open>s.split(c)\<close> for a separator of one character: never the empty list.\<close>

fun split_on :: "char \<Rightarrow> string \<Rightarrow> string list" where
  "split_on c [] = [[]]"
| "split_on c (x # xs) =
     (if x = c then [] # split_on c xs
      else (case split_on c xs of [] \<Rightarrow> [[x]] | piece # pieces \<Rightarrow> (x # piece) # pieces))"

text \<open>\<open>xs.join(sep)\<close>.\<close>

fun join_with :: "string \<Rightarrow> string list \<Rightarrow> string" where
  "join_with sep [] = []"
| "join_with sep [x] = x"
| "join_with sep (x # y # ys) = x @ sep @ join_with sep (y # ys)"

subsection \<open>Errors\<close>

text \<open>
  The only error class of the engine is \<open>EnvCryptoError(message, code)\<close>. Every other
  exception is one that a runtime function raised (\<open>SyntaxError\<close> of \<open>JSON.parse\<close>,
  \<open>TypeError\<close>, the plain \<open>Error\<close> of the cipher, the system errors of \<open>fs\<close>);
  the engine has no \<open>catch\<close>, so these propagate to the caller as they are.
\<close>

datatype native_error =
    SyntaxError string
  | TypeError string
  | CryptoError string
  | SystemError string

datatype error =
    EnvCryptoError (message: string) (code: string)
  | Native native_error

subsection \<open>The POSIX \<open>path\<close> module\<close>

text \<open>
  \<open>path.isAbsolute\<close>, \<open>path.sep\<close>, \<open>path.resolve\<close> and \<open>path.relative\<close> as
  Node documents them for POSIX. \<open>normalizeString\<close> works on the segments between
  slashes: an empty segment and \<open>.\<close> are dropped, \<open>..\<close> removes the segment before it
  (above the root it is dropped, or kept when the path is relative).
  The first argument \<open>pcwd\<close> of \<open>path_resolve\<close> is the value of \<open>process.cwd()\<close>,
  which \<open>path.resolve\<close> reads when its arguments give no absolute path.
\<close>

definition sep :: string where
  "sep = ''/''"

definition isAbsolute :: "string \<Rightarrow> bool" where
  "isAbsolute p = (case p of [] \<Rightarrow> False | c # _ \<Rightarrow> c = CHR ''/'')"

definition normalize_step :: "bool \<Rightarrow> string list \<Rightarrow> string \<Rightarrow> string list" where
  "normalize_step allowAboveRoot res seg =
     (if seg = [] \<or> seg = ''.'' then res
      else if seg = ''..'' then
        (case res of
           [] \<Rightarrow> if allowAboveRoot then [''..''] else []
         | l # ls \<Rightarrow>
             if l = ''..'' then (if allowAboveRoot then ''..'' # res else res) else ls)
      else seg # res)"

definition normalize_segments :: "bool \<Rightarrow> string \<Rightarrow> string list" where
  "normalize_segments allowAboveRoot p =
     rev (foldl (normalize_step allowAboveRoot) [] (split_on CHR ''/'' p))"

definition normalizeString :: "string \<Rightarrow> bool \<Rightarrow> string" where
  "normalizeString p allowAboveRoot = join_with ''/'' (normalize_segments allowAboveRoot p)"

text \<open>The loop of \<open>path.resolve\<close>, from the last argument to the first, then \<open>process.cwd()\<close>.\<close>

fun resolve_loop :: "string \<Rightarrow> string list \<Rightarrow> string \<Rightarrow> string \<times> bool" where
  "resolve_loop pcwd [] resolvedPath =
     (if pcwd = [] then (resolvedPath, False)
      else (pcwd @ ''/'' @ resolvedPath, isAbsolute pcwd))"
| "resolve_loop pcwd (p # ps) resolvedPath =
     (if p = [] then resolve_loop pcwd ps resolvedPath
      else if isAbsolute p then (p @ ''/'' @ resolvedPath, True)
      else resolve_loop pcwd ps (p @ ''/'' @ resolvedPath))"

definition path_resolve :: "string \<Rightarrow> string list \<Rightarrow> string" where
  "path_resolve pcwd args =
     (case resolve_loop pcwd (rev args) [] of
        (resolvedPath, resolvedAbsolute) \<Rightarrow>
          (let n = normalizeString resolvedPath (\<not> resolvedAbsolute)
           in if resolvedAbsolute then ''/'' @ n
              else if n \<noteq> [] then n else ''.''))"

definition segments :: "string \<Rightarrow> string list" where
  "segments p = filter (\<lambda>s. s \<noteq> []) (split_on CHR ''/'' p)"

fun strip_common :: "string list \<Rightarrow> string list \<Rightarrow> string list \<times> string list" where
  "strip_common (x # xs) (y # ys) =
     (if x = y then strip_common xs ys else (x # xs, y # ys))"
| "strip_common xs ys = (xs, ys)"

text \<open>
  \<open>path.relative(from, to)\<close>: both paths are resolved, their common leading segments
  are dropped, and the result climbs out of what is left of \<open>from\<close> with one \<open>..\<close>
  per segment and then descends into what is left of \<open>to\<close>.
\<close>

definition path_relative :: "string \<Rightarrow> string \<Rightarrow> string \<Rightarrow> string" where
  "path_relative pcwd from to =
     (if from = to then []
      else
        (let from' = path_resolve pcwd [from];
             to' = path_resolve pcwd [to]
         in if from' = to' then []
            else
              (case strip_common (segments from') (segments to') of
                 (fs, ts) \<Rightarrow> join_with ''/'' (replicate (length fs) ''..'' @ ts))))"

subsection \<open>\<open>validatePath\<close>\<close>

definition INVALID_PATH :: error where
  "INVALID_PATH = EnvCryptoError ''Invalid file path: outside working directory'' ''INVALID_PATH''"

text \<open>\<open>pcwd\<close> is \<open>process.cwd()\<close>.\<close>

definition validatePath :: "string \<Rightarrow> string \<Rightarrow> error + string" where
  "validatePath pcwd filePath =
     (let resolved = path_resolve pcwd [pcwd, filePath];
          cwd = path_resolve pcwd [pcwd];
          relative = path_relative pcwd cwd resolved
      in if startsWith relative ''..'' \<or> (isAbsolute filePath \<and> \<not> startsWith resolved (cwd @ sep))
         then Inl INVALID_PATH
         else Inr resolved)"







subsection \<open>Buffers and hexadecimal text\<close>

text \<open>\<open>buf.toString('hex')\<close>: two lowercase digits per byte.\<close>

definition hex_digit :: "nat \<Rightarrow> char" where
  "hex_digit n = ''0123456789abcdef'' ! n"

definition byte_to_hex :: "byte \<Rightarrow> string" where
  "byte_to_hex b = [hex_digit (unat b div 16), hex_digit (unat b mod 16)]"

definition toString_hex :: "byte list \<Rightarrow> string" where
  "toString_hex bs = concat (map byte_to_hex bs)"

definition hex_value :: "char \<Rightarrow> nat option" where
  "hex_value c =
     (let n = (of_char c :: nat)
      in if 48 \<le> n \<and> n \<le> 57 then Some (n - 48)
         else if 97 \<le> n \<and> n \<le> 102 then Some (n - 87)
         else if 65 \<le> n \<and> n \<le> 70 then Some (n - 55)
         else None)"

text \<open>
  \<open>Buffer.from(s, 'hex')\<close> for a string \<open>s\<close>: pairs of hexadecimal digits are
  decoded from the left, and decoding stops without an error at the first pair that is
  not two digits, or at a last single character.
\<close>

fun Buffer_from_hex_string :: "string \<Rightarrow> byte list" where
  "Buffer_from_hex_string (a # b # rest) =
     (case hex_value a of
        None \<Rightarrow> []
      | Some h \<Rightarrow>
          (case hex_value b of
             None \<Rightarrow> []
           | Some l \<Rightarrow> of_nat (16 * h + l) # Buffer_from_hex_string rest))"
| "Buffer_from_hex_string _ = []"

text \<open>
  The two local variables of the engine that hold key material. A \<open>Buffer\<close> is a
  mutable object; the frame gives the contents of the buffer each variable refers to
  (\<open>None\<close> for \<open>null\<close>), so that what \<open>clearBuffer\<close> leaves behind can be read
  when the call returns.
\<close>

record frame =
  keyBuffer :: "byte list option"
  salt :: "byte list option"

text \<open>\<open>clearBuffer\<close>: \<open>buffer.fill(0)\<close> unless the argument is \<open>null\<close>.\<close>

definition clearBuffer :: "byte list option \<Rightarrow> byte list option" where
  "clearBuffer buffer =
     (case buffer of None \<Rightarrow> None | Some b \<Rightarrow> Some (replicate (length b) 0))"

definition zeroed :: "byte list option \<Rightarrow> bool" where
  "zeroed buffer =
     (case buffer of None \<Rightarrow> True | Some b \<Rightarrow> b = replicate (length b) 0)"

subsection \<open>JSON values\<close>

text \<open>
  The values \<open>JSON.parse\<close> returns, and \<open>undefined\<close> for a property that is not
  there. An object is the list of its own properties, each key once. A number is
  given by its value (an infinite one, from a literal beyond the range of a double, by
  any value other than zero: the engine only tests whether a number is zero).
\<close>

datatype json =
    JUndefined
  | JNull
  | JBool bool
  | JNumber rat
  | JString string
  | JArray "json list"
  | JObject "(string \<times> json) list"

text \<open>
  Reading one of the properties \<open>salt\<close>, \<open>iv\<close>, \<open>content\<close>, \<open>authTag\<close>:
  on \<open>null\<close> a \<open>TypeError\<close>; a string, a number, a boolean and an array have
  none of these four.
\<close>

definition get_property :: "json \<Rightarrow> string \<Rightarrow> native_error + json" where
  "get_property v k =
     (case v of
        JNull \<Rightarrow> Inl (TypeError ''Cannot read properties of null'')
      | JUndefined \<Rightarrow> Inl (TypeError ''Cannot read properties of undefined'')
      | JObject kvs \<Rightarrow> (case map_of kvs k of None \<Rightarrow> Inr JUndefined | Some x \<Rightarrow> Inr x)
      | _ \<Rightarrow> Inr JUndefined)"

text \<open>\<open>!v\<close> is \<open>\<not> truthy v\<close>.\<close>

definition truthy :: "json \<Rightarrow> bool" where
  "truthy v =
     (case v of
        JUndefined \<Rightarrow> False
      | JNull \<Rightarrow> False
      | JBool b \<Rightarrow> b
      | JNumber x \<Rightarrow> x \<noteq> 0
      | JString s \<Rightarrow> s \<noteq> []
      | JArray _ \<Rightarrow> True
      | JObject _ \<Rightarrow> True)"

text \<open>
  \<open>JSON.stringify\<close> of an object whose properties are all strings: the properties in
  the order of their creation, no white space, each string quoted with the escapes of
  \<open>QuoteJSONString\<close>.
\<close>

definition JSON_escape :: "char \<Rightarrow> string" where
  "JSON_escape c =
     (let n = (of_char c :: nat)
      in if c = CHR 0x22 then [CHR 0x5C, CHR 0x22]
         else if c = CHR 0x5C then [CHR 0x5C, CHR 0x5C]
         else if n = 8 then [CHR 0x5C, CHR ''b'']
         else if n = 9 then [CHR 0x5C, CHR ''t'']
         else if n = 10 then [CHR 0x5C, CHR ''n'']
         else if n = 12 then [CHR 0x5C, CHR ''f'']
         else if n = 13 then [CHR 0x5C, CHR ''r'']
         else if n < 32 then [CHR 0x5C, CHR ''u'', CHR ''0'', CHR ''0'', hex_digit (n div 16), hex_digit (n mod 16)]
         else [c])"

definition JSON_quote :: "string \<Rightarrow> string" where
  "JSON_quote s = [CHR 0x22] @ concat (map JSON_escape s) @ [CHR 0x22]"

definition JSON_stringify_record :: "(string \<times> string) list \<Rightarrow> string" where
  "JSON_stringify_record kvs =
     ''{'' @ join_with '','' (map (\<lambda>(k, v). JSON_quote k @ '':'' @ JSON_quote v) kvs) @ ''}''"

subsection \<open>The runtime\<close>

text \<open>
  What the engine calls and this theory does not define:
  \<^item> \<open>JSON_parse\<close>: \<open>JSON.parse(text)\<close>, or the \<open>SyntaxError\<close> it throws;
  \<^item> \<open>scryptSync\<close>: \<open>scryptSync(password, salt, keylen)\<close>;
  \<^item> \<open>cipher_gcm key iv plaintext\<close>: \<open>createCipheriv('aes-256-gcm', key, iv)\<close>,
    then \<open>update(plaintext, 'utf8', 'hex') + final('hex')\<close> and \<open>getAuthTag()\<close>;
  \<^item> \<open>decipher_gcm key iv authTag content\<close>: \<open>createDecipheriv('aes-256-gcm', key, iv)\<close>,
    \<open>setAuthTag(authTag)\<close>, then \<open>update(content, 'hex', 'utf8') + final('utf8')\<close>,
    where \<open>content\<close> is passed as the container holds it;
  \<^item> \<open>Buffer_from_other\<close>: \<open>Buffer.from(v, 'hex')\<close> for a value that is not a string.
  Each returns its result or the exception it throws. Between the calls folded into
  \<open>cipher_gcm\<close> and \<open>decipher_gcm\<close> the engine does nothing else, so an exception
  of any of them leaves the engine the same way.
\<close>

record runtime =
  JSON_parse :: "string \<Rightarrow> native_error + json"
  scryptSync :: "string \<Rightarrow> byte list \<Rightarrow> nat \<Rightarrow> native_error + byte list"
  cipher_gcm :: "byte list \<Rightarrow> byte list \<Rightarrow> string \<Rightarrow> native_error + string \<times> byte list"
  decipher_gcm :: "byte list \<Rightarrow> byte list \<Rightarrow> byte list \<Rightarrow> json \<Rightarrow> native_error + string"
  Buffer_from_other :: "json \<Rightarrow> native_error + byte list"

definition Buffer_from_hex :: "runtime \<Rightarrow> json \<Rightarrow> native_error + byte list" where
  "Buffer_from_hex rt v =
     (case v of JString s \<Rightarrow> Inr (Buffer_from_hex_string s) | _ \<Rightarrow> Buffer_from_other rt v)"

subsection \<open>The process: environment, working directory, files, randomness, console\<close>

text \<open>
  \<open>files\<close> gives the text of every file that can be read, by absolute path
  (\<open>readFileSync(p, 'utf8')\<close>); at any other path \<open>readFileSync\<close> throws the system
  error \<open>read_error p\<close>, which is the process's to decide (\<^verbatim>\<open>ENOENT\<close> with the path
  for a missing file, \<^verbatim>\<open>EISDIR\<close> for a directory, \<^verbatim>\<open>EACCES\<close>, ...).
  \<open>write_error p\<close> is the error with which \<open>writeFileSync\<close> fails at \<open>p\<close>, if it
  does; a file that has been written can be read. The permission bits
  \<open>writeFileSync\<close> is given are not modelled.
  \<open>randomBytes\<close> takes the next bytes of \<open>entropy\<close>, from position \<open>drawn\<close>.
\<close>

record world =
  env :: "string \<rightharpoonup> string"
  cwd :: string
  files :: "string \<rightharpoonup> string"
  read_error :: "string \<Rightarrow> native_error"
  write_error :: "string \<Rightarrow> native_error option"
  entropy :: "nat \<Rightarrow> byte"
  drawn :: nat
  console :: "string list"

definition readFileSync :: "world \<Rightarrow> string \<Rightarrow> native_error + string" where
  "readFileSync w p =
     (case files w p of
        None \<Rightarrow> Inl (read_error w p)
      | Some text \<Rightarrow> Inr text)"

definition writeFileSync :: "world \<Rightarrow> string \<Rightarrow> string \<Rightarrow> native_error + world" where
  "writeFileSync w p text =
     (case write_error w p of
        Some e \<Rightarrow> Inl e
      | None \<Rightarrow> Inr (w\<lparr>files := (files w)(p \<mapsto> text)\<rparr>))"

definition randomBytes :: "world \<Rightarrow> nat \<Rightarrow> byte list \<times> world" where
  "randomBytes w n = (map (entropy w) [drawn w ..< drawn w + n], w\<lparr>drawn := drawn w + n\<rparr>)"

definition console_log :: "world \<Rightarrow> string \<Rightarrow> world" where
  "console_log w line = w\<lparr>console := console w @ [line]\<rparr>"


subsection \<open>The key-value parser of \<open>decryptEnvFile\<close>\<close>

text \<open>
  The character classes of the regular expression, on code units 0..255:
  \<open>\s\<close> (tab, line feed, vertical tab, form feed, carriage return, space, no-break
  space), \<open>[\w.-]\<close>, and \<open>.\<close> (anything but a line terminator).
\<close>

definition is_space :: "char \<Rightarrow> bool" where
  "is_space c \<longleftrightarrow> (of_char c :: nat) \<in> {9, 10, 11, 12, 13, 32, 160}"

definition is_word :: "char \<Rightarrow> bool" where
  "is_word c =
     (let n = (of_char c :: nat)
      in (48 \<le> n \<and> n \<le> 57) \<or> (65 \<le> n \<and> n \<le> 90) \<or> (97 \<le> n \<and> n \<le> 122) \<or> n = 95)"

definition is_key_char :: "char \<Rightarrow> bool" where
  "is_key_char c \<longleftrightarrow> is_word c \<or> c = CHR ''.'' \<or> c = CHR ''-''"

definition is_dot :: "char \<Rightarrow> bool" where
  "is_dot c \<longleftrightarrow> c \<noteq> CHR 0x0A \<and> c \<noteq> CHR 0x0D"

text \<open>
  A regular expression that is a sequence of literal characters and of greedy
  repetitions of a character class (at least \<open>lo\<close> times, captured or not), anchored at
  both ends. \<open>rx_match\<close> is the backtracking matcher of JavaScript on such an
  expression: a repetition first takes all the characters it can, then gives them back
  one by one until the rest of the expression matches the rest of the string. It
  returns the captured groups, in order.
\<close>

datatype atom =
    Lit char
  | Rep bool "char \<Rightarrow> bool" nat

fun first_fit :: "(nat \<Rightarrow> 'a option) \<Rightarrow> nat \<Rightarrow> nat \<Rightarrow> 'a option" where
  "first_fit f lo 0 = (if lo = 0 then f 0 else None)"
| "first_fit f lo (Suc n) =
     (if Suc n < lo then None
      else (case f (Suc n) of Some r \<Rightarrow> Some r | None \<Rightarrow> first_fit f lo n))"

fun rx_match :: "atom list \<Rightarrow> string \<Rightarrow> string list option" where
  "rx_match [] s = (if s = [] then Some [] else None)"
| "rx_match (Lit c # atoms) s =
     (case s of [] \<Rightarrow> None | x # xs \<Rightarrow> if x = c then rx_match atoms xs else None)"
| "rx_match (Rep captured cls lo # atoms) s =
     first_fit
       (\<lambda>n. case rx_match atoms (drop n s) of
               None \<Rightarrow> None
             | Some groups \<Rightarrow> Some (if captured then take n s # groups else groups))
       lo (length (takeWhile cls s))"

text \<open>
  \<^verbatim>\<open>/^\s*([\w.-]+)\s*=\s*(.*)?\s*$/\<close>. The second group is optional; where it does not
  take part in the match the engine reads it as the empty string (\<open>match[2] || ''\<close>),
  which is also what the group captures when it matches nothing.
\<close>

definition env_line_regex :: "atom list" where
  "env_line_regex =
     [Rep False is_space 0, Rep True is_key_char 1, Rep False is_space 0, Lit CHR ''='',
      Rep False is_space 0, Rep True is_dot 0, Rep False is_space 0]"

text \<open>The removal of one pair of quotes around a value.\<close>

definition strip_quotes :: "string \<Rightarrow> string" where
  "strip_quotes v =
     (if length v > 1 \<and>
         ((startsWith v [CHR 0x22] \<and> endsWith v [CHR 0x22]) \<or>
          (startsWith v [CHR 0x27] \<and> endsWith v [CHR 0x27]))
      then take (length v - 2) (drop 1 v)
      else v)"

text \<open>
  \<open>envVars[key] = value\<close> on a plain object: the key \<open>__proto__\<close> names the
  prototype accessor, whose setter ignores a string, so no property is created for it.
\<close>

definition set_property :: "(string \<rightharpoonup> string) \<Rightarrow> string \<Rightarrow> string \<Rightarrow> (string \<rightharpoonup> string)" where
  "set_property envVars key v = (if key = ''__proto__'' then envVars else envVars(key \<mapsto> v))"

definition parse_line :: "(string \<rightharpoonup> string) \<Rightarrow> string \<Rightarrow> (string \<rightharpoonup> string)" where
  "parse_line envVars line =
     (if line = [] \<or> startsWith line ''#'' then envVars
      else
        (case rx_match env_line_regex line of
           Some [key, v] \<Rightarrow> set_property envVars key (strip_quotes v)
         | _ \<Rightarrow> envVars))"

definition parse_env :: "string \<Rightarrow> (string \<rightharpoonup> string)" where
  "parse_env decrypted = foldl parse_line Map.empty (split_on CHR 0x0A decrypted)"

text \<open>The input of the parser's edge-case property.\<close>

definition edge_case_input :: string where
  "edge_case_input =
     ''DB_HOST=\"localhost\"'' @ [CHR 0x0A] @
     ''API_KEY='' @ [CHR 0x27] @ ''k'' @ [CHR 0x27, CHR 0x0A] @
     ''EMPTY=\"\"'' @ [CHR 0x0A] @
     ''BAD LINE'' @ [CHR 0x0A] @
     ''=NOKEY'' @ [CHR 0x0A] @
     ''OK='' @ [CHR 0x0A]"

subsection \<open>\<open>encryptEnvFile\<close>\<close>

definition container_record :: "string \<Rightarrow> string \<Rightarrow> string \<Rightarrow> string \<Rightarrow> (string \<times> string) list" where
  "container_record saltHex ivHex content authTagHex =
     [(''version'', ''1.0.0''), (''salt'', saltHex), (''iv'', ivHex),
      (''content'', content), (''authTag'', authTagHex)]"

text \<open>The \<open>try\<close> block: the result, the process afterwards, and the two buffers.\<close>

definition encrypt_try ::
  "runtime \<Rightarrow> world \<Rightarrow> string \<Rightarrow> string \<Rightarrow> string \<Rightarrow> (error + unit) \<times> world \<times> frame" where
  "encrypt_try rt w sourcePath outputPath keyEnvVar =
     (let fr0 = \<lparr>keyBuffer = None, salt = None\<rparr>;
          no_key = EnvCryptoError (''Environment variable '' @ keyEnvVar @ '' not found'') ''KEY_NOT_FOUND''
      in case env w keyEnvVar of
           None \<Rightarrow> (Inl no_key, w, fr0)
         | Some key \<Rightarrow>
             if key = [] then (Inl no_key, w, fr0)
             else
               (case validatePath (cwd w) sourcePath of
                  Inl e \<Rightarrow> (Inl e, w, fr0)
                | Inr validatedSourcePath \<Rightarrow>
                    (case readFileSync w validatedSourcePath of
                       Inl e \<Rightarrow> (Inl (Native e), w, fr0)
                     | Inr plaintext \<Rightarrow>
                         (case randomBytes w 16 of
                            (saltBytes, w1) \<Rightarrow>
                              (let fr1 = fr0\<lparr>salt := Some saltBytes\<rparr>
                               in case scryptSync rt key saltBytes 32 of
                                    Inl e \<Rightarrow> (Inl (Native e), w1, fr1)
                                  | Inr keyBytes \<Rightarrow>
                                      (let fr2 = fr1\<lparr>keyBuffer := Some keyBytes\<rparr>
                                       in case randomBytes w1 16 of
                                            (iv, w2) \<Rightarrow>
                                              (case cipher_gcm rt keyBytes iv plaintext of
                                                 Inl e \<Rightarrow> (Inl (Native e), w2, fr2)
                                               | Inr (encrypted, authTag) \<Rightarrow>
                                                   (let encryptedData =
                                                          JSON_stringify_record
                                                            (container_record (toString_hex saltBytes)
                                                               (toString_hex iv) encrypted (toString_hex authTag))
                                                    in case validatePath (cwd w2) outputPath of
                                                         Inl e \<Rightarrow> (Inl e, w2, fr2)
                                                       | Inr validatedOutputPath \<Rightarrow>
                                                           (case writeFileSync w2 validatedOutputPath encryptedData of
                                                              Inl e \<Rightarrow> (Inl (Native e), w2, fr2)
                                                            | Inr w3 \<Rightarrow>
                                                                (Inr (),
                                                                 console_log w3
                                                                   (''Encrypted environment file saved to '' @ outputPath),
                                                                 fr2))))))))))"

text \<open>The whole function: the \<open>try\<close> block, then \<open>finally\<close> on every way out of it.\<close>

definition encryptEnvFile ::
  "runtime \<Rightarrow> world \<Rightarrow> string \<Rightarrow> string \<Rightarrow> string \<Rightarrow> (error + unit) \<times> world \<times> frame" where
  "encryptEnvFile rt w sourcePath outputPath keyEnvVar =
     (case encrypt_try rt w sourcePath outputPath keyEnvVar of
        (result, w', fr) \<Rightarrow>
          (result, w', \<lparr>keyBuffer = clearBuffer (keyBuffer fr), salt = clearBuffer (salt fr)\<rparr>))"

subsection \<open>\<open>decryptEnvFile\<close>\<close>

definition INVALID_FORMAT :: error where
  "INVALID_FORMAT =
     EnvCryptoError ''Invalid encrypted file format: missing required fields'' ''INVALID_FORMAT''"

text \<open>
  The four properties are read here before the test; the source reads each when the
  test reaches it, which differs only if a read throws, and a read throws only on
  \<open>null\<close>, where the first one does.
\<close>

definition decrypt_try ::
  "runtime \<Rightarrow> world \<Rightarrow> string \<Rightarrow> string \<Rightarrow> (error + (string \<rightharpoonup> string)) \<times> frame" where
  "decrypt_try rt w sourcePath keyEnvVar =
     (let fr0 = \<lparr>keyBuffer = None, salt = None\<rparr>;
          no_key = EnvCryptoError (''Decryption key not found in environment variable '' @ keyEnvVar)
                     ''KEY_NOT_FOUND''
      in case env w keyEnvVar of
           None \<Rightarrow> (Inl no_key, fr0)
         | Some key \<Rightarrow>
             if key = [] then (Inl no_key, fr0)
             else
               (case validatePath (cwd w) sourcePath of
                  Inl e \<Rightarrow> (Inl e, fr0)
                | Inr validatedSourcePath \<Rightarrow>
                    (case readFileSync w validatedSourcePath of
                       Inl e \<Rightarrow> (Inl (Native e), fr0)
                     | Inr text \<Rightarrow>
                         (case JSON_parse rt text of
                            Inl e \<Rightarrow> (Inl (Native e), fr0)
                          | Inr encryptedData \<Rightarrow>
                              (case get_property encryptedData ''salt'' of
                                 Inl e \<Rightarrow> (Inl (Native e), fr0)
                               | Inr saltField \<Rightarrow>
                              (case get_property encryptedData ''iv'' of
                                 Inl e \<Rightarrow> (Inl (Native e), fr0)
                               | Inr ivField \<Rightarrow>
                              (case get_property encryptedData ''content'' of
                                 Inl e \<Rightarrow> (Inl (Native e), fr0)
                               | Inr contentField \<Rightarrow>
                              (case get_property encryptedData ''authTag'' of
                                 Inl e \<Rightarrow> (Inl (Native e), fr0)
                               | Inr authTagField \<Rightarrow>
                                   if \<not> truthy saltField \<or> \<not> truthy ivField \<or>
                                      \<not> truthy contentField \<or> \<not> truthy authTagField
                                   then (Inl INVALID_FORMAT, fr0)
                                   else
                                     (case Buffer_from_hex rt saltField of
                                        Inl e \<Rightarrow> (Inl (Native e), fr0)
                                      | Inr saltBytes \<Rightarrow>
                                          (let fr1 = fr0\<lparr>salt := Some saltBytes\<rparr>
                                           in case scryptSync rt key saltBytes 32 of
                                                Inl e \<Rightarrow> (Inl (Native e), fr1)
                                              | Inr keyBytes \<Rightarrow>
                                                  (let fr2 = fr1\<lparr>keyBuffer := Some keyBytes\<rparr>
                                                   in case Buffer_from_hex rt ivField of
                                                        Inl e \<Rightarrow> (Inl (Native e), fr2)
                                                      | Inr iv \<Rightarrow>
                                                          (case Buffer_from_hex rt authTagField of
                                                             Inl e \<Rightarrow> (Inl (Native e), fr2)
                                                           | Inr authTag \<Rightarrow>
                                                               (case decipher_gcm rt keyBytes iv authTag contentField of
                                                                  Inl e \<Rightarrow> (Inl (Native e), fr2)
                                                                | Inr decrypted \<Rightarrow>
                                                                    (Inr (parse_env decrypted), fr2))))))))))))))"

text \<open>\<open>finally\<close> clears \<open>keyBuffer\<close> only: \<open>salt\<close> is a constant of the \<open>try\<close> block.\<close>

definition decryptEnvFile ::
  "runtime \<Rightarrow> world \<Rightarrow> string \<Rightarrow> string \<Rightarrow> (error + (string \<rightharpoonup> string)) \<times> frame" where
  "decryptEnvFile rt w sourcePath keyEnvVar =
     (case decrypt_try rt w sourcePath keyEnvVar of
        (result, fr) \<Rightarrow> (result, \<lparr>keyBuffer = clearBuffer (keyBuffer fr), salt = salt fr\<rparr>))"

subsection \<open>Contracts of the runtime\<close>

text \<open>
  A lowercase hexadecimal digit.
\<close>

definition is_hex_char :: "char \<Rightarrow> bool" where
  "is_hex_char c \<longleftrightarrow> c \<in> set ''0123456789abcdef''"

text \<open>
  The object \<open>JSON.parse\<close> gives for a container of five strings.
\<close>

definition container_json :: "string \<Rightarrow> string \<Rightarrow> string \<Rightarrow> string \<Rightarrow> json" where
  "container_json saltHex ivHex content authTagHex =
     JObject (map (\<lambda>(k, v). (k, JString v)) (container_record saltHex ivHex content authTagHex))"

text \<open>
  The contracts the theorems about a whole run assume of the runtime.
  \<^item> \<open>kdf_contract\<close>: \<open>scryptSync(password, salt, 32)\<close> returns a key of 32 bytes.
  \<^item> \<open>aead_contract\<close>: with a key of 32 bytes and a nonce of 16 bytes the cipher
    returns the ciphertext in lowercase hexadecimal digits, empty exactly for the empty
    plaintext, and a tag of 16 bytes; the decipher with the same key, nonce and tag
    returns the plaintext.
  \<^item> \<open>json_contract\<close>: \<open>JSON.parse\<close> reads a container of hexadecimal fields back
    as \<open>JSON.stringify\<close> wrote it.
\<close>

definition kdf_contract :: "runtime \<Rightarrow> bool" where
  "kdf_contract rt \<longleftrightarrow>
     (\<forall>password saltBytes. \<exists>keyBytes.
        scryptSync rt password saltBytes 32 = Inr keyBytes \<and> length keyBytes = 32)"

definition aead_contract :: "runtime \<Rightarrow> bool" where
  "aead_contract rt \<longleftrightarrow>
     (\<forall>key iv plaintext. length key = 32 \<longrightarrow> length iv = 16 \<longrightarrow>
        (\<exists>content authTag.
           cipher_gcm rt key iv plaintext = Inr (content, authTag)
           \<and> list_all is_hex_char content
           \<and> (content = [] \<longleftrightarrow> plaintext = [])
           \<and> length authTag = 16
           \<and> decipher_gcm rt key iv authTag (JString content) = Inr plaintext))"

definition json_contract :: "runtime \<Rightarrow> bool" where
  "json_contract rt \<longleftrightarrow>
     (\<forall>saltHex ivHex content authTagHex.
        list_all is_hex_char saltHex \<longrightarrow> list_all is_hex_char ivHex \<longrightarrow>
        list_all is_hex_char content \<longrightarrow> list_all is_hex_char authTagHex \<longrightarrow>
        JSON_parse rt (JSON_stringify_record (container_record saltHex ivHex content authTagHex))
          = Inr (container_json saltHex ivHex content authTagHex))"

subsection \<open>What a call of \<open>encryptEnvFile\<close> writes\<close>

text \<open>
  The salt and the nonce of a call of \<open>encryptEnvFile\<close> in the process \<open>w\<close>: the
  first and the second 16 bytes \<open>randomBytes\<close> draws. The text of the container the
  call writes for a ciphertext and a tag, the object it parses to, and the process after
  a call that has written \<open>text\<close> to \<open>out\<close>.
\<close>

definition first_draw :: "world \<Rightarrow> byte list" where
  "first_draw w = map (entropy w) [drawn w ..< drawn w + 16]"

definition second_draw :: "world \<Rightarrow> byte list" where
  "second_draw w = first_draw (w\<lparr>drawn := drawn w + 16\<rparr>)"

definition written_container :: "world \<Rightarrow> string \<Rightarrow> byte list \<Rightarrow> string" where
  "written_container w content authTag =
     JSON_stringify_record
       (container_record (toString_hex (first_draw w)) (toString_hex (second_draw w))
          content (toString_hex authTag))"

definition parsed_container :: "world \<Rightarrow> string \<Rightarrow> byte list \<Rightarrow> json" where
  "parsed_container w content authTag =
     container_json (toString_hex (first_draw w)) (toString_hex (second_draw w))
       content (toString_hex authTag)"

definition after_encrypt :: "world \<Rightarrow> string \<Rightarrow> string \<Rightarrow> string \<Rightarrow> world" where
  "after_encrypt w out outputPath text =
     w\<lparr>files := (files w)(out \<mapsto> text),
       drawn := drawn w + 32,
       console := console w @ [''Encrypted environment file saved to '' @ outputPath]\<rparr>"

text \<open>
  A property of the container stored at \<open>p\<close>, as \<open>JSON.parse\<close> reads it.
\<close>

definition stored_field :: "runtime \<Rightarrow> world \<Rightarrow> string \<Rightarrow> string \<Rightarrow> json option" where
  "stored_field rt w p name =
     (case files w p of
        None \<Rightarrow> None
      | Some text \<Rightarrow>
          (case JSON_parse rt text of
             Inl e \<Rightarrow> None
           | Inr v \<Rightarrow> (case get_property v name of Inl e \<Rightarrow> None | Inr x \<Rightarrow> Some x)))"

subsection \<open>A runtime and a process to run the engine on\<close>

text \<open>
  A small runtime on which the theorems are run: a key derivation that sums its
  inputs, a cipher that adds a key stream to the bytes of the plaintext (one byte per
  code unit) and tags the ciphertext with a checksum, and a parser for objects of
  strings written without escapes or white space. It meets the three contracts; it is
  not Node's runtime.
\<close>

definition demo_kdf :: "string \<Rightarrow> byte list \<Rightarrow> nat \<Rightarrow> native_error + byte list" where
  "demo_kdf password saltBytes keylen =
     Inr (map (\<lambda>i. of_nat (i + length password)
                   + sum_list (map (\<lambda>c. of_nat (of_char c)) password)
                   + sum_list saltBytes)
            [0..<keylen])"

definition demo_keystream :: "byte list \<Rightarrow> byte list \<Rightarrow> nat \<Rightarrow> byte" where
  "demo_keystream key iv i = key ! (i mod length key) + iv ! (i mod length iv) + of_nat i"

fun demo_add :: "(nat \<Rightarrow> byte) \<Rightarrow> nat \<Rightarrow> byte list \<Rightarrow> byte list" where
  "demo_add ks i [] = []"
| "demo_add ks i (b # bs) = (b + ks i) # demo_add ks (Suc i) bs"

fun demo_sub :: "(nat \<Rightarrow> byte) \<Rightarrow> nat \<Rightarrow> byte list \<Rightarrow> byte list" where
  "demo_sub ks i [] = []"
| "demo_sub ks i (b # bs) = (b - ks i) # demo_sub ks (Suc i) bs"

definition demo_tag :: "byte list \<Rightarrow> byte list \<Rightarrow> byte list \<Rightarrow> byte list" where
  "demo_tag key iv ct =
     map (\<lambda>j. key ! j + iv ! (j mod length iv) + sum_list ct + of_nat (length ct) + of_nat j)
       [0..<16]"

definition demo_cipher :: "byte list \<Rightarrow> byte list \<Rightarrow> string \<Rightarrow> native_error + string \<times> byte list" where
  "demo_cipher key iv plaintext =
     (if length key \<noteq> 32 then Inl (CryptoError ''Invalid key length'')
      else if iv = [] then Inl (CryptoError ''Invalid initialization vector'')
      else
        (let ct = demo_add (demo_keystream key iv) 0 (map (\<lambda>c. of_nat (of_char c)) plaintext)
         in Inr (toString_hex ct, demo_tag key iv ct)))"

definition demo_decipher :: "byte list \<Rightarrow> byte list \<Rightarrow> byte list \<Rightarrow> json \<Rightarrow> native_error + string" where
  "demo_decipher key iv authTag content =
     (if length key \<noteq> 32 then Inl (CryptoError ''Invalid key length'')
      else if iv = [] then Inl (CryptoError ''Invalid initialization vector'')
      else
        (case content of
           JString c \<Rightarrow>
             (let ct = Buffer_from_hex_string c
              in if authTag = demo_tag key iv ct
                 then Inr (map (\<lambda>b. char_of (unat b)) (demo_sub (demo_keystream key iv) 0 ct))
                 else Inl (CryptoError ''Unsupported state or unable to authenticate data''))
         | _ \<Rightarrow> Inl (TypeError ''The data argument must be of type string'')))"

fun demo_members :: "string list \<Rightarrow> (string \<times> json) list option" where
  "demo_members (k # c # v # e # rest) =
     (if c \<noteq> '':'' then None
      else if e = ''}'' \<and> rest = [] then Some [(k, JString v)]
      else if e = '','' then
        (case demo_members rest of None \<Rightarrow> None | Some kvs \<Rightarrow> Some ((k, JString v) # kvs))
      else None)"
| "demo_members _ = None"

definition demo_JSON_parse :: "string \<Rightarrow> native_error + json" where
  "demo_JSON_parse text =
     (case split_on CHR 0x22 text of
        [] \<Rightarrow> Inl (SyntaxError ''Unexpected end of JSON input'')
      | b # rest \<Rightarrow>
          if b \<noteq> ''{'' then Inl (SyntaxError ''Unexpected token'')
          else
            (case demo_members rest of
               None \<Rightarrow> Inl (SyntaxError ''Unexpected token'')
             | Some kvs \<Rightarrow> Inr (JObject kvs)))"

definition demo_runtime :: runtime where
  "demo_runtime =
     \<lparr>JSON_parse = demo_JSON_parse,
      scryptSync = demo_kdf,
      cipher_gcm = demo_cipher,
      decipher_gcm = demo_decipher,
      Buffer_from_other = (\<lambda>v. Inl (TypeError ''The first argument must be of type string''))\<rparr>"



text \<open>
  A string that \<open>JSON_quote\<close> leaves as it is between the quotes.
\<close>

definition bare :: "string \<Rightarrow> bool" where
  "bare s \<longleftrightarrow> list_all (\<lambda>c. JSON_escape c = [c]) s"

text \<open>
  The key the demonstration runtime derives from the passphrase of the tests and the
  salt \<^verbatim>\<open>030a11181f262d343b424950575e656c\<close>.
\<close>

definition demo_derived_key :: "byte list" where
  "demo_derived_key = map of_nat [214 ..< 246]"

text \<open>
  The plaintext of the concrete scenario.
\<close>

definition demo_text :: string where
  "demo_text = ''TEST_VAR=123'' @ [CHR 0x0A] @ ''ANOTHER_VAR=hello,world'' @ [CHR 0x0A]"

text \<open>
  A process for it: the passphrase and the plaintext of the repository's tests, an
  empty plaintext, the malformed container and the four containers with a missing field
  of the tests, and the container the demo runtime writes for the plaintext with the
  lowest bit of the first byte of its tag flipped. Every other path is a missing file.
\<close>

definition demo_world :: world where
  "demo_world =
     \<lparr>env = [''ENV_CRYPTO_KEY'' \<mapsto> ''mkNA802Hqwxpl6c0''],
      cwd = ''/home/user/project'',
      files =
        [''/home/user/project/.env'' \<mapsto> demo_text,
         ''/home/user/project/empty.env'' \<mapsto> [],
         ''/home/user/project/.env.malformed.encrypted'' \<mapsto> ''This is not valid JSON'',
         ''/home/user/project/tampered.encrypted'' \<mapsto>
           JSON_stringify_record
             (container_record ''030a11181f262d343b424950575e656c''
                ''737a81888f969da4abb2b9c0c7ced5dc''
                ''9d97aeb8ccccc0dacecbd5dfbfff151fbdbac0d6ecece0faee222838414d1367d8e4e7e897''
                ''d3dbe4edf6ff08111a232c353e475059''),
         ''/home/user/project/no-salt.encrypted'' \<mapsto>
           ''{\"iv\":\"test\",\"content\":\"test\",\"authTag\":\"test\"}'',
         ''/home/user/project/no-iv.encrypted'' \<mapsto>
           ''{\"salt\":\"test\",\"content\":\"test\",\"authTag\":\"test\"}'',
         ''/home/user/project/no-content.encrypted'' \<mapsto>
           ''{\"salt\":\"test\",\"iv\":\"test\",\"authTag\":\"test\"}'',
         ''/home/user/project/no-authTag.encrypted'' \<mapsto>
           ''{\"salt\":\"test\",\"iv\":\"test\",\"content\":\"test\"}''],
      read_error =
        (\<lambda>p. SystemError (''ENOENT: no such file or directory, open '' @ [CHR 0x27] @ p @ [CHR 0x27])),
      write_error = (\<lambda>p. None),
      entropy = (\<lambda>i. of_nat (7 * i + 3)),
      drawn = 0,
      console = []\<rparr>"

section \<open>Properties\<close>

subsection \<open>Paths\<close>


lemma split_on_nonempty: "split_on c s \<noteq> []"
  by (induction s) (auto split: list.splits)

lemma split_on_append: "split_on c (a @ c # b) = split_on c a @ split_on c b"
proof (induction a)
  case Nil
  then show ?case by simp
next
  case (Cons x a)
  then show ?case using split_on_nonempty [of c a]
    by (cases "split_on c a") auto
qed

lemma split_on_nosep: "c \<notin> set s \<Longrightarrow> split_on c s = [s]"
  by (induction s) auto










































subsection \<open>The parser\<close>

lemma first_fit_Some: "first_fit f lo n = Some r \<Longrightarrow> \<exists>k. f k = Some r"
  by (induction n) (auto split: if_splits option.splits)

lemma rx_match_literal:
  "rx_match atoms s = Some gs \<Longrightarrow> Lit c \<in> set atoms \<Longrightarrow> c \<in> set s"
proof (induction atoms arbitrary: s gs)
  case Nil
  then show ?case by simp
next
  case (Cons a atoms)
  show ?case
  proof (cases a)
    case (Lit d)
    with Cons.prems obtain xs where s: "s = d # xs" and m: "rx_match atoms xs = Some gs"
      by (cases s) (auto split: if_splits)
    show ?thesis
    proof (cases "c = d")
      case True
      with s show ?thesis by simp
    next
      case False
      with Cons.prems Lit have "Lit c \<in> set atoms" by simp
      with Cons.IH [OF m] s show ?thesis by simp
    qed
  next
    case (Rep captured cls lo)
    with Cons.prems obtain n where
      "(case rx_match atoms (drop n s) of None \<Rightarrow> None
        | Some groups \<Rightarrow> Some (if captured then take n s # groups else groups)) = Some gs"
      using first_fit_Some by fastforce
    then obtain gs' where m: "rx_match atoms (drop n s) = Some gs'"
      by (auto split: option.splits)
    from Cons.prems Rep have "Lit c \<in> set atoms" by simp
    from Cons.IH [OF m this] show ?thesis by (rule in_set_dropD)
  qed
qed

lemma no_equals_no_match: "CHR ''='' \<notin> set line \<Longrightarrow> rx_match env_line_regex line = None"
proof (rule ccontr)
  assume ne: "CHR ''='' \<notin> set line" and "rx_match env_line_regex line \<noteq> None"
  then obtain gs where "rx_match env_line_regex line = Some gs" by auto
  from rx_match_literal [OF this, of "CHR ''=''"] ne show False
    by (simp add: env_line_regex_def)
qed

lemma empty_key_no_match: "rx_match env_line_regex (CHR ''='' # rest) = None"
  by (simp add: env_line_regex_def is_space_def is_key_char_def is_word_def)

lemma strip_double: "strip_quotes ([CHR 0x22] @ v @ [CHR 0x22]) = v"
  by (simp add: strip_quotes_def startsWith_def endsWith_def)

lemma strip_single: "strip_quotes ([CHR 0x27] @ v @ [CHR 0x27]) = v"
  by (simp add: strip_quotes_def startsWith_def endsWith_def)

lemma edge_lines:
  "split_on CHR 0x0A edge_case_input =
     [''DB_HOST=\"localhost\"'', ''API_KEY='' @ [CHR 0x27] @ ''k'' @ [CHR 0x27], ''EMPTY=\"\"'',
      ''BAD LINE'', ''=NOKEY'', ''OK='', []]"
  by code_simp

lemma edge_m1: "rx_match env_line_regex ''DB_HOST=\"localhost\"'' = Some [''DB_HOST'', ''\"localhost\"'']"
  by code_simp

lemma edge_m2: "rx_match env_line_regex (''API_KEY='' @ [CHR 0x27] @ ''k'' @ [CHR 0x27])
   = Some [''API_KEY'', [CHR 0x27] @ ''k'' @ [CHR 0x27]]"
  by code_simp

lemma edge_m3: "rx_match env_line_regex ''EMPTY=\"\"'' = Some [''EMPTY'', ''\"\"'']"
  by code_simp

lemma edge_m4: "rx_match env_line_regex ''BAD LINE'' = None"
  by code_simp

lemma edge_m5: "rx_match env_line_regex ''=NOKEY'' = None"
  by code_simp

lemma edge_m6: "rx_match env_line_regex ''OK='' = Some [''OK'', []]"
  by code_simp

lemma edge_parse:
  "parse_env edge_case_input =
     [''DB_HOST'' \<mapsto> ''localhost'', ''API_KEY'' \<mapsto> ''k'', ''EMPTY'' \<mapsto> [], ''OK'' \<mapsto> []]"
  using edge_lines edge_m1 edge_m2 edge_m3 edge_m4 edge_m5 edge_m6
  by (simp add: parse_env_def parse_line_def set_property_def strip_quotes_def
      startsWith_def endsWith_def)

text \<open>
  C6. On the input of the parser's edge-case property the parser returns the mapping of
  \<open>DB_HOST\<close> to \<open>localhost\<close>, \<open>API_KEY\<close> to \<open>k\<close>, \<open>EMPTY\<close> and \<open>OK\<close> to the
  empty string, with exactly these four keys. A value inside one pair of double or of
  single quotes loses exactly that pair, whatever is between them; a line without
  \<open>=\<close> and a line that begins with \<open>=\<close> change nothing.
\<close>

theorem parser_edge_cases:
  "parse_env edge_case_input =
     [''DB_HOST'' \<mapsto> ''localhost'', ''API_KEY'' \<mapsto> ''k'', ''EMPTY'' \<mapsto> [], ''OK'' \<mapsto> []]
   \<and> dom (parse_env edge_case_input) = {''DB_HOST'', ''API_KEY'', ''EMPTY'', ''OK''}
   \<and> card (dom (parse_env edge_case_input)) = 4
   \<and> strip_quotes ([CHR 0x22] @ v @ [CHR 0x22]) = v
   \<and> strip_quotes ([CHR 0x27] @ v @ [CHR 0x27]) = v
   \<and> (CHR ''='' \<notin> set line \<longrightarrow> parse_line m line = m)
   \<and> parse_line m (CHR ''='' # rest) = m"
proof -
  have d: "dom (parse_env edge_case_input) = {''DB_HOST'', ''API_KEY'', ''EMPTY'', ''OK''}"
    by (auto simp: edge_parse)
  have c: "card {''DB_HOST'', ''API_KEY'', ''EMPTY'', ''OK''} = 4" by simp
  have n: "parse_line m line = m" if "CHR ''='' \<notin> set line"
    using no_equals_no_match [OF that] by (simp add: parse_line_def)
  have k: "parse_line m (CHR ''='' # rest) = m"
    using empty_key_no_match [of rest] by (simp add: parse_line_def)
  show ?thesis
    using edge_parse d c strip_double [of v] strip_single [of v] n k by simp
qed

theorem parser_edge_cases_witness:
  "CHR ''='' \<notin> set ''BAD LINE''
   \<and> parse_line [''A'' \<mapsto> ''1''] ''BAD LINE'' = [''A'' \<mapsto> ''1'']
   \<and> parse_line [''A'' \<mapsto> ''1''] ''=NOKEY'' = [''A'' \<mapsto> ''1'']
   \<and> strip_quotes ''\"a\"b\"'' = ''a\"b''
   \<and> map (parse_env edge_case_input) [''DB_HOST'', ''API_KEY'', ''EMPTY'', ''OK'', ''BAD'', ''NOKEY'']
       = [Some ''localhost'', Some ''k'', Some [], Some [], None, None]"
  using parser_edge_cases [of "''a\"b''" "''BAD LINE''" "[''A'' \<mapsto> ''1'']" "''NOKEY''"]
  by simp

subsection \<open>Hexadecimal text\<close>

lemma hex_digit_table:
  "list_all (\<lambda>n. hex_value (hex_digit n) = Some n \<and> is_hex_char (hex_digit n)) [0..<16]"
  by code_simp

lemma hex_digit_cases:
  assumes "n < 16"
  shows "hex_value (hex_digit n) = Some n \<and> is_hex_char (hex_digit n)"
proof -
  from assms have "n \<in> set [0..<16]" by simp
  with hex_digit_table show ?thesis unfolding list_all_iff by blast
qed

lemma byte_split: "(of_nat (16 * (unat b div 16) + unat b mod 16) :: byte) = b"
  by simp

lemma unat_byte_div: "unat (b :: byte) div 16 < 16"
proof -
  have "unat b < 2 ^ LENGTH(8)" by (rule unsigned_less)
  then show ?thesis by simp
qed

lemma hex_roundtrip: "Buffer_from_hex_string (toString_hex bs @ rest) = bs @ Buffer_from_hex_string rest"
proof (induction bs)
  case Nil
  then show ?case by (simp add: toString_hex_def)
next
  case (Cons b bs)
  have h: "hex_value (hex_digit (unat b div 16)) = Some (unat b div 16)"
    using hex_digit_cases [OF unat_byte_div [of b]] by simp
  have l: "hex_value (hex_digit (unat b mod 16)) = Some (unat b mod 16)"
    using hex_digit_cases [of "unat b mod 16"] by simp
  from Cons h l show ?case
    by (simp add: toString_hex_def byte_to_hex_def byte_split)
qed

lemma hex_decode_encode: "Buffer_from_hex_string (toString_hex bs) = bs"
  using hex_roundtrip [of bs "[]"] by simp

lemma hex_is_hex: "list_all is_hex_char (toString_hex bs)"
proof (induction bs)
  case Nil
  then show ?case by (simp add: toString_hex_def)
next
  case (Cons b bs)
  then show ?case
    using hex_digit_cases [OF unat_byte_div [of b]] hex_digit_cases [of "unat b mod 16"]
    by (simp add: toString_hex_def byte_to_hex_def)
qed

lemma hex_empty: "toString_hex bs = [] \<longleftrightarrow> bs = []"
proof (cases bs)
  case Nil
  then show ?thesis by (simp add: toString_hex_def)
next
  case (Cons b rest)
  then have "toString_hex bs = hex_digit (unat b div 16) # hex_digit (unat b mod 16) # toString_hex rest"
    by (simp add: toString_hex_def byte_to_hex_def)
  with Cons show ?thesis by simp
qed

lemma hex_inj: "toString_hex a = toString_hex b \<Longrightarrow> a = b"
  by (metis hex_decode_encode)

subsection \<open>Runs of the engine\<close>

lemma randomBytes_first:
  "randomBytes w 16 = (first_draw w, w\<lparr>drawn := drawn w + 16\<rparr>)"
  by (simp add: randomBytes_def first_draw_def)

lemma encrypt_run:
  assumes key: "env w keyEnvVar = Some key" "key \<noteq> []"
    and src: "validatePath (cwd w) sourcePath = Inr src" "files w src = Some plaintext"
    and kdf: "scryptSync rt key (first_draw w) 32 = Inr keyBytes"
    and enc: "cipher_gcm rt keyBytes (second_draw w) plaintext = Inr (content, authTag)"
    and out: "validatePath (cwd w) outputPath = Inr out" "write_error w out = None"
  shows "encryptEnvFile rt w sourcePath outputPath keyEnvVar =
     (Inr (), after_encrypt w out outputPath (written_container w content authTag),
      \<lparr>keyBuffer = Some (replicate (length keyBytes) 0), salt = Some (replicate 16 0)\<rparr>)"
proof -
  have len: "length (first_draw w) = 16" by (simp add: first_draw_def)
  show ?thesis
    using assms len
    by (simp add: encryptEnvFile_def encrypt_try_def readFileSync_def randomBytes_first
        second_draw_def writeFileSync_def console_log_def clearBuffer_def Let_def
        after_encrypt_def written_container_def)
qed

lemma decrypt_run:
  assumes key: "env w keyEnvVar = Some key" "key \<noteq> []"
    and src: "validatePath (cwd w) sourcePath = Inr src" "files w src = Some text"
    and json: "JSON_parse rt text = Inr (container_json saltHex ivHex content authTagHex)"
    and ne: "saltHex \<noteq> []" "ivHex \<noteq> []" "content \<noteq> []" "authTagHex \<noteq> []"
    and kdf: "scryptSync rt key (Buffer_from_hex_string saltHex) 32 = Inr keyBytes"
  shows "decryptEnvFile rt w sourcePath keyEnvVar =
     ((case decipher_gcm rt keyBytes (Buffer_from_hex_string ivHex)
              (Buffer_from_hex_string authTagHex) (JString content) of
         Inl e \<Rightarrow> Inl (Native e)
       | Inr decrypted \<Rightarrow> Inr (parse_env decrypted)),
      \<lparr>keyBuffer = Some (replicate (length keyBytes) 0),
       salt = Some (Buffer_from_hex_string saltHex)\<rparr>)"
  using assms
  by (simp add: decryptEnvFile_def decrypt_try_def readFileSync_def container_json_def
      container_record_def get_property_def truthy_def Buffer_from_hex_def clearBuffer_def
      Let_def split: sum.splits)

lemma decrypt_empty_content:
  assumes key: "env w keyEnvVar = Some key" "key \<noteq> []"
    and src: "validatePath (cwd w) sourcePath = Inr src" "files w src = Some text"
    and json: "JSON_parse rt text = Inr (container_json saltHex ivHex [] authTagHex)"
  shows "decryptEnvFile rt w sourcePath keyEnvVar = (Inl INVALID_FORMAT, \<lparr>keyBuffer = None, salt = None\<rparr>)"
  using assms
  by (simp add: decryptEnvFile_def decrypt_try_def readFileSync_def container_json_def
      container_record_def get_property_def truthy_def clearBuffer_def Let_def)

lemma first_draw_length: "length (first_draw w) = 16"
  by (simp add: first_draw_def)

lemma second_draw_length: "length (second_draw w) = 16"
  by (simp add: second_draw_def first_draw_length)

lemma after_encrypt_simps:
  "env (after_encrypt w out outputPath text) = env w"
  "cwd (after_encrypt w out outputPath text) = cwd w"
  "files (after_encrypt w out outputPath text) = (files w)(out \<mapsto> text)"
  "write_error (after_encrypt w out outputPath text) = write_error w"
  "entropy (after_encrypt w out outputPath text) = entropy w"
  "drawn (after_encrypt w out outputPath text) = drawn w + 32"
  by (simp_all add: after_encrypt_def)

lemma roundtrip:
  assumes rt: "kdf_contract rt" "aead_contract rt" "json_contract rt"
    and key: "env w keyEnvVar = Some key" "key \<noteq> []"
    and src: "validatePath (cwd w) sourcePath = Inr src" "files w src = Some plaintext"
    and out: "validatePath (cwd w) outputPath = Inr out" "write_error w out = None"
  shows "\<exists>content authTag.
      encryptEnvFile rt w sourcePath outputPath keyEnvVar =
        (Inr (), after_encrypt w out outputPath (written_container w content authTag),
         \<lparr>keyBuffer = Some (replicate 32 0), salt = Some (replicate 16 0)\<rparr>)
      \<and> (content = [] \<longleftrightarrow> plaintext = [])
      \<and> JSON_parse rt (written_container w content authTag) = Inr (parsed_container w content authTag)
      \<and> decryptEnvFile rt (after_encrypt w out outputPath (written_container w content authTag))
             outputPath keyEnvVar
          = (if plaintext = [] then (Inl INVALID_FORMAT, \<lparr>keyBuffer = None, salt = None\<rparr>)
             else (Inr (parse_env plaintext),
                   \<lparr>keyBuffer = Some (replicate 32 0), salt = Some (first_draw w)\<rparr>))"
proof -
  let ?salt = "first_draw w" and ?iv = "second_draw w"
  from rt(1) obtain keyBytes where
    kdf: "scryptSync rt key ?salt 32 = Inr keyBytes" and klen: "length keyBytes = 32"
    unfolding kdf_contract_def by blast
  from rt(2) klen second_draw_length [of w] obtain content authTag where
    enc: "cipher_gcm rt keyBytes ?iv plaintext = Inr (content, authTag)"
    and hex: "list_all is_hex_char content"
    and empty: "content = [] \<longleftrightarrow> plaintext = []"
    and tlen: "length authTag = 16"
    and dec: "decipher_gcm rt keyBytes ?iv authTag (JString content) = Inr plaintext"
    unfolding aead_contract_def by blast
  let ?text = "written_container w content authTag"
  let ?w' = "after_encrypt w out outputPath ?text"
  have run: "encryptEnvFile rt w sourcePath outputPath keyEnvVar =
        (Inr (), ?w', \<lparr>keyBuffer = Some (replicate 32 0), salt = Some (replicate 16 0)\<rparr>)"
    using encrypt_run [OF key src kdf enc out] klen by simp
  have json: "JSON_parse rt ?text =
      Inr (container_json (toString_hex ?salt) (toString_hex ?iv) content (toString_hex authTag))"
    using rt(3) hex hex_is_hex unfolding json_contract_def written_container_def by blast
  have key': "env ?w' keyEnvVar = Some key" using key by (simp add: after_encrypt_simps)
  have src': "validatePath (cwd ?w') outputPath = Inr out" "files ?w' out = Some ?text"
    using out by (simp_all add: after_encrypt_simps)
  have undo: "decryptEnvFile rt ?w' outputPath keyEnvVar
          = (if plaintext = [] then (Inl INVALID_FORMAT, \<lparr>keyBuffer = None, salt = None\<rparr>)
             else (Inr (parse_env plaintext),
                   \<lparr>keyBuffer = Some (replicate 32 0), salt = Some (first_draw w)\<rparr>))"
  proof (cases "plaintext = []")
    case True
    with empty have "content = []" by simp
    with json True show ?thesis
      using decrypt_empty_content [OF key' key(2) src'] by simp
  next
    case False
    with empty have c: "content \<noteq> []" by simp
    have s: "toString_hex ?salt \<noteq> []" using first_draw_length [of w] by (auto simp: hex_empty)
    have i: "toString_hex ?iv \<noteq> []" using second_draw_length [of w] by (auto simp: hex_empty)
    have a: "toString_hex authTag \<noteq> []" using tlen by (auto simp: hex_empty)
    have kdf': "scryptSync rt key (Buffer_from_hex_string (toString_hex ?salt)) 32 = Inr keyBytes"
      using kdf by (simp add: hex_decode_encode)
    from False dec klen show ?thesis
      using decrypt_run [OF key' key(2) src' json s i c a kdf']
      by (simp add: hex_decode_encode)
  qed
  from json have json': "JSON_parse rt ?text = Inr (parsed_container w content authTag)"
    by (simp add: parsed_container_def)
  from run empty json' undo show ?thesis by blast
qed







lemma encrypt_bad_output:
  assumes key: "env w keyEnvVar = Some key" "key \<noteq> []"
    and src: "validatePath (cwd w) sourcePath = Inr src" "files w src = Some plaintext"
    and kdf: "scryptSync rt key (first_draw w) 32 = Inr keyBytes"
    and enc: "cipher_gcm rt keyBytes (second_draw w) plaintext = Inr (content, authTag)"
    and out: "validatePath (cwd w) outputPath = Inl e"
  shows "encryptEnvFile rt w sourcePath outputPath keyEnvVar =
     (Inl e, w\<lparr>drawn := drawn w + 32\<rparr>,
      \<lparr>keyBuffer = Some (replicate (length keyBytes) 0), salt = Some (replicate 16 0)\<rparr>)"
proof -
  have len: "length (first_draw w) = 16" by (simp add: first_draw_def)
  show ?thesis
    using assms len
    by (simp add: encryptEnvFile_def encrypt_try_def readFileSync_def randomBytes_first
        second_draw_def clearBuffer_def Let_def)
qed


lemma zeroed_clearBuffer: "zeroed (clearBuffer b)"
  by (cases b) (simp_all add: zeroed_def clearBuffer_def)

lemma encrypt_frame_zeroed:
  "zeroed (keyBuffer (snd (snd (encryptEnvFile rt w sourcePath outputPath keyEnvVar))))
   \<and> zeroed (salt (snd (snd (encryptEnvFile rt w sourcePath outputPath keyEnvVar))))"
  by (simp add: encryptEnvFile_def zeroed_clearBuffer split: prod.splits)

lemma decrypt_frame_zeroed:
  "zeroed (keyBuffer (snd (decryptEnvFile rt w sourcePath keyEnvVar)))"
  by (simp add: decryptEnvFile_def zeroed_clearBuffer split: prod.splits)

lemma stored_fields:
  assumes "files w' out = Some text"
    and "JSON_parse rt text = Inr (parsed_container w content authTag)"
  shows "stored_field rt w' out ''salt'' = Some (JString (toString_hex (first_draw w)))"
    and "stored_field rt w' out ''iv'' = Some (JString (toString_hex (second_draw w)))"
    and "stored_field rt w' out ''content'' = Some (JString content)"
  using assms
  by (simp_all add: stored_field_def parsed_container_def container_json_def
      container_record_def get_property_def)

lemma draws_after_encrypt:
  "first_draw (after_encrypt w out outputPath text) = first_draw (w\<lparr>drawn := drawn w + 32\<rparr>)"
  "second_draw (after_encrypt w out outputPath text) = second_draw (w\<lparr>drawn := drawn w + 32\<rparr>)"
  by (simp_all add: first_draw_def second_draw_def after_encrypt_def)

lemma two_runs:
  assumes rt: "kdf_contract rt" "aead_contract rt" "json_contract rt"
    and key: "env w keyEnvVar = Some key" "key \<noteq> []"
    and src: "validatePath (cwd w) sourcePath = Inr src" "files w src = Some plaintext"
    and out: "validatePath (cwd w) outputPath = Inr out" "write_error w out = None"
    and other: "src \<noteq> out"
  shows "\<exists>w1 w2 content1 content2.
      fst (snd (encryptEnvFile rt w sourcePath outputPath keyEnvVar)) = w1
      \<and> fst (snd (encryptEnvFile rt w1 sourcePath outputPath keyEnvVar)) = w2
      \<and> stored_field rt w1 out ''salt'' = Some (JString (toString_hex (first_draw w)))
      \<and> stored_field rt w2 out ''salt''
          = Some (JString (toString_hex (first_draw (w\<lparr>drawn := drawn w + 32\<rparr>))))
      \<and> stored_field rt w1 out ''iv'' = Some (JString (toString_hex (second_draw w)))
      \<and> stored_field rt w2 out ''iv''
          = Some (JString (toString_hex (second_draw (w\<lparr>drawn := drawn w + 32\<rparr>))))
      \<and> stored_field rt w1 out ''content'' = Some (JString content1)
      \<and> stored_field rt w2 out ''content'' = Some (JString content2)
      \<and> (content1 = [] \<longleftrightarrow> plaintext = []) \<and> (content2 = [] \<longleftrightarrow> plaintext = [])
      \<and> fst (decryptEnvFile rt w1 outputPath keyEnvVar)
          = (if plaintext = [] then Inl INVALID_FORMAT else Inr (parse_env plaintext))
      \<and> fst (decryptEnvFile rt w2 outputPath keyEnvVar)
          = (if plaintext = [] then Inl INVALID_FORMAT else Inr (parse_env plaintext))"
proof -
  from roundtrip [OF rt key src out] obtain c1 a1 where
    run1: "encryptEnvFile rt w sourcePath outputPath keyEnvVar =
        (Inr (), after_encrypt w out outputPath (written_container w c1 a1),
         \<lparr>keyBuffer = Some (replicate 32 0), salt = Some (replicate 16 0)\<rparr>)"
    and e1: "c1 = [] \<longleftrightarrow> plaintext = []"
    and j1: "JSON_parse rt (written_container w c1 a1) = Inr (parsed_container w c1 a1)"
    and d1: "decryptEnvFile rt (after_encrypt w out outputPath (written_container w c1 a1))
             outputPath keyEnvVar
          = (if plaintext = [] then (Inl INVALID_FORMAT, \<lparr>keyBuffer = None, salt = None\<rparr>)
             else (Inr (parse_env plaintext),
                   \<lparr>keyBuffer = Some (replicate 32 0), salt = Some (first_draw w)\<rparr>))"
    by blast
  let ?w1 = "after_encrypt w out outputPath (written_container w c1 a1)"
  have key1: "env ?w1 keyEnvVar = Some key" using key by (simp add: after_encrypt_simps)
  have src1: "validatePath (cwd ?w1) sourcePath = Inr src" "files ?w1 src = Some plaintext"
    using src other by (simp_all add: after_encrypt_simps)
  have out1: "validatePath (cwd ?w1) outputPath = Inr out" "write_error ?w1 out = None"
    using out by (simp_all add: after_encrypt_simps)
  from roundtrip [OF rt key1 key(2) src1 out1] obtain c2 a2 where
    run2: "encryptEnvFile rt ?w1 sourcePath outputPath keyEnvVar =
        (Inr (), after_encrypt ?w1 out outputPath (written_container ?w1 c2 a2),
         \<lparr>keyBuffer = Some (replicate 32 0), salt = Some (replicate 16 0)\<rparr>)"
    and e2: "c2 = [] \<longleftrightarrow> plaintext = []"
    and j2: "JSON_parse rt (written_container ?w1 c2 a2) = Inr (parsed_container ?w1 c2 a2)"
    and d2: "decryptEnvFile rt (after_encrypt ?w1 out outputPath (written_container ?w1 c2 a2))
             outputPath keyEnvVar
          = (if plaintext = [] then (Inl INVALID_FORMAT, \<lparr>keyBuffer = None, salt = None\<rparr>)
             else (Inr (parse_env plaintext),
                   \<lparr>keyBuffer = Some (replicate 32 0), salt = Some (first_draw ?w1)\<rparr>))"
    by blast
  let ?w2 = "after_encrypt ?w1 out outputPath (written_container ?w1 c2 a2)"
  have f1: "files ?w1 out = Some (written_container w c1 a1)" by (simp add: after_encrypt_simps)
  have f2: "files ?w2 out = Some (written_container ?w1 c2 a2)" by (simp add: after_encrypt_simps)
  note s1 = stored_fields [OF f1 j1]
  note s2 = stored_fields [OF f2 j2, unfolded draws_after_encrypt]
  have w1: "fst (snd (encryptEnvFile rt w sourcePath outputPath keyEnvVar)) = ?w1"
    using run1 by simp
  have w2: "fst (snd (encryptEnvFile rt ?w1 sourcePath outputPath keyEnvVar)) = ?w2"
    using run2 by simp
  have r1: "fst (decryptEnvFile rt ?w1 outputPath keyEnvVar)
          = (if plaintext = [] then Inl INVALID_FORMAT else Inr (parse_env plaintext))"
    using d1 by simp
  have r2: "fst (decryptEnvFile rt ?w2 outputPath keyEnvVar)
          = (if plaintext = [] then Inl INVALID_FORMAT else Inr (parse_env plaintext))"
    using d2 by simp
  from w1 w2 s1 s2 e1 e2 r1 r2 show ?thesis by blast
qed

subsection \<open>The demonstration runtime meets the contracts\<close>

lemma demo_kdf_contract: "kdf_contract demo_runtime"
  by (simp add: kdf_contract_def demo_runtime_def demo_kdf_def)

lemma demo_sub_add: "demo_sub ks i (demo_add ks i bs) = bs"
  by (induction bs arbitrary: i) simp_all

lemma demo_char_byte: "char_of (unat (of_nat (of_char c) :: byte)) = c"
proof -
  have "(of_char c :: nat) < 256" by (rule nat_of_char_less_256)
  then have "unat (of_nat (of_char c) :: byte) = of_char c"
    by (simp add: unat_of_nat)
  then show ?thesis by simp
qed

lemma demo_add_empty: "demo_add ks i bs = [] \<longleftrightarrow> bs = []"
  by (cases bs) simp_all

lemma demo_aead_contract: "aead_contract demo_runtime"
proof -
  have "\<exists>content authTag.
           demo_cipher key iv plaintext = Inr (content, authTag)
           \<and> list_all is_hex_char content
           \<and> (content = [] \<longleftrightarrow> plaintext = [])
           \<and> length authTag = 16
           \<and> demo_decipher key iv authTag (JString content) = Inr plaintext"
    if k: "length key = 32" and i: "length iv = 16" for key iv plaintext
  proof -
    let ?ct = "demo_add (demo_keystream key iv) 0 (map (\<lambda>c. of_nat (of_char c)) plaintext)"
    from i have iv: "iv \<noteq> []" by auto
    have enc: "demo_cipher key iv plaintext = Inr (toString_hex ?ct, demo_tag key iv ?ct)"
      using k iv by (simp add: demo_cipher_def Let_def)
    have plain_again: "map (\<lambda>b. char_of (unat b)) (demo_sub (demo_keystream key iv) 0 ?ct) = plaintext"
      by (simp add: demo_sub_add demo_char_byte o_def)
    have dec: "demo_decipher key iv (demo_tag key iv ?ct) (JString (toString_hex ?ct)) = Inr plaintext"
      using k iv plain_again by (simp add: demo_decipher_def hex_decode_encode Let_def)
    have e: "toString_hex ?ct = [] \<longleftrightarrow> plaintext = []"
      by (simp add: hex_empty demo_add_empty)
    have t: "length (demo_tag key iv ?ct) = 16" by (simp add: demo_tag_def)
    from enc dec e t hex_is_hex [of ?ct] show ?thesis by blast
  qed
  then show ?thesis by (simp add: aead_contract_def demo_runtime_def)
qed

lemma hex_chars_bare: "list_all (\<lambda>c. JSON_escape c = [c]) ''0123456789abcdef''"
  by code_simp

lemma hex_bare: "list_all is_hex_char s \<Longrightarrow> bare s"
  using hex_chars_bare unfolding bare_def list_all_iff is_hex_char_def by blast

lemma quote_bare: "bare s \<Longrightarrow> JSON_quote s = CHR 0x22 # s @ [CHR 0x22]"
proof -
  assume "bare s"
  then have "concat (map JSON_escape s) = s"
    by (induction s) (simp_all add: bare_def)
  then show ?thesis by (simp add: JSON_quote_def)
qed

lemma bare_no_quote: "bare s \<Longrightarrow> CHR 0x22 \<notin> set s"
proof (induction s)
  case Nil
  then show ?case by simp
next
  case (Cons c s)
  then have "JSON_escape c = [c]" and "bare s" by (simp_all add: bare_def)
  then have "c \<noteq> CHR 0x22" by (auto simp: JSON_escape_def)
  with Cons \<open>bare s\<close> show ?case by simp
qed

lemma split_on_piece: "c \<notin> set a \<Longrightarrow> split_on c (a @ c # b) = a # split_on c b"
  by (simp add: split_on_append split_on_nosep)

lemma demo_members_split:
  assumes "kvs \<noteq> []" and "list_all (\<lambda>(k, v). bare k \<and> bare v) kvs"
  shows "\<exists>ps. split_on CHR 0x22
               (join_with '','' (map (\<lambda>(k, v). JSON_quote k @ '':'' @ JSON_quote v) kvs) @ ''}'')
             = [] # ps
          \<and> demo_members ps = Some (map (\<lambda>(k, v). (k, JString v)) kvs)"
  using assms
proof (induction kvs)
  case Nil
  then show ?case by simp
next
  case (Cons kv kvs)
  obtain k v where kv: "kv = (k, v)" by (cases kv)
  with Cons.prems have b: "bare k" "bare v" by simp_all
  have nk: "CHR 0x22 \<notin> set k" and nv: "CHR 0x22 \<notin> set v"
    using b by (simp_all add: bare_no_quote)
  show ?case
  proof (cases kvs)
    case Nil
    have "split_on CHR 0x22 (CHR 0x22 # k @ CHR 0x22 # CHR '':'' # CHR 0x22 # v @ CHR 0x22 # ''}'')
          = [[], k, '':'', v, ''}'']"
      using nk nv by (simp add: split_on_piece)
    with Nil kv b show ?thesis by (simp add: quote_bare)
  next
    case (Cons kv' kvs')
    with Cons.IH Cons.prems obtain ps where
      ps: "split_on CHR 0x22
               (join_with '','' (map (\<lambda>(k, v). JSON_quote k @ '':'' @ JSON_quote v) kvs) @ ''}'')
             = [] # ps"
      and ms: "demo_members ps = Some (map (\<lambda>(k, v). (k, JString v)) kvs)"
      by auto
    let ?rest = "join_with '','' (map (\<lambda>(k, v). JSON_quote k @ '':'' @ JSON_quote v) kvs) @ ''}''"
    have "split_on CHR 0x22 (CHR 0x22 # k @ CHR 0x22 # CHR '':'' # CHR 0x22 # v @ CHR 0x22 # CHR '','' # ?rest)
          = [[], k, '':'', v] @ ('','' # ps)"
      using nk nv ps by (simp add: split_on_piece)
    moreover have "demo_members (k # '':'' # v # '','' # ps)
        = Some ((k, JString v) # map (\<lambda>(k, v). (k, JString v)) kvs)"
      using ms by simp
    ultimately show ?thesis
      using Cons kv b by (simp add: quote_bare)
  qed
qed

lemma demo_parse_record:
  assumes "kvs \<noteq> []" and "list_all (\<lambda>(k, v). bare k \<and> bare v) kvs"
  shows "demo_JSON_parse (JSON_stringify_record kvs) = Inr (JObject (map (\<lambda>(k, v). (k, JString v)) kvs))"
proof -
  from demo_members_split [OF assms] obtain ps where
    "split_on CHR 0x22
               (join_with '','' (map (\<lambda>(k, v). JSON_quote k @ '':'' @ JSON_quote v) kvs) @ ''}'')
             = [] # ps"
    and "demo_members ps = Some (map (\<lambda>(k, v). (k, JString v)) kvs)"
    by blast
  then show ?thesis
    by (simp add: demo_JSON_parse_def JSON_stringify_record_def)
qed

lemma bare_names:
  "bare ''version''" "bare ''1.0.0''" "bare ''salt''" "bare ''iv''" "bare ''content''" "bare ''authTag''"
  by (simp_all add: bare_def JSON_escape_def)

lemma demo_json_contract: "json_contract demo_runtime"
  unfolding json_contract_def
proof (intro allI impI)
  fix saltHex ivHex content authTagHex
  assume "list_all is_hex_char saltHex" "list_all is_hex_char ivHex"
    "list_all is_hex_char content" "list_all is_hex_char authTagHex"
  then have "list_all (\<lambda>(k, v). bare k \<and> bare v) (container_record saltHex ivHex content authTagHex)"
    by (simp add: container_record_def bare_names hex_bare)
  moreover have "container_record saltHex ivHex content authTagHex \<noteq> []"
    by (simp add: container_record_def)
  ultimately show "JSON_parse demo_runtime
        (JSON_stringify_record (container_record saltHex ivHex content authTagHex))
          = Inr (container_json saltHex ivHex content authTagHex)"
    using demo_parse_record by (simp add: demo_runtime_def container_json_def)
qed

subsection \<open>The demonstration process\<close>

lemma demo_key: "env demo_world ''ENV_CRYPTO_KEY'' = Some ''mkNA802Hqwxpl6c0''"
  by (simp add: demo_world_def)

lemma demo_key_ne: "''mkNA802Hqwxpl6c0'' \<noteq> []"
  by simp

lemma demo_cwd: "cwd demo_world = ''/home/user/project''"
  by (simp add: demo_world_def)

lemma demo_paths:
  "validatePath (cwd demo_world) ''.env'' = Inr ''/home/user/project/.env''"
  "validatePath (cwd demo_world) ''empty.env'' = Inr ''/home/user/project/empty.env''"
  "validatePath (cwd demo_world) ''missing.env'' = Inr ''/home/user/project/missing.env''"
  "validatePath (cwd demo_world) ''.env.encrypted'' = Inr ''/home/user/project/.env.encrypted''"
  "validatePath (cwd demo_world) ''tampered.encrypted'' = Inr ''/home/user/project/tampered.encrypted''"
  "validatePath (cwd demo_world) ''../out.encrypted'' = Inl INVALID_PATH"
  unfolding demo_cwd by code_simp+

lemma demo_files:
  "files demo_world ''/home/user/project/.env'' = Some demo_text"
  "files demo_world ''/home/user/project/empty.env'' = Some []"
  "files demo_world ''/home/user/project/missing.env'' = None"
  "write_error demo_world p = None"
  by (simp_all add: demo_world_def demo_text_def)

lemma demo_parse_text:
  "parse_env demo_text = [''TEST_VAR'' \<mapsto> ''123'', ''ANOTHER_VAR'' \<mapsto> ''hello,world'']"
proof -
  have l: "split_on CHR 0x0A demo_text = [''TEST_VAR=123'', ''ANOTHER_VAR=hello,world'', []]"
    by code_simp
  have m1: "rx_match env_line_regex ''TEST_VAR=123'' = Some [''TEST_VAR'', ''123'']" by code_simp
  have m2: "rx_match env_line_regex ''ANOTHER_VAR=hello,world'' = Some [''ANOTHER_VAR'', ''hello,world'']"
    by code_simp
  show ?thesis
    using l m1 m2
    by (simp add: parse_env_def parse_line_def set_property_def strip_quotes_def
        startsWith_def endsWith_def)
qed

lemma demo_fresh:
  "first_draw (demo_world\<lparr>drawn := drawn demo_world + 32\<rparr>) \<noteq> first_draw demo_world"
  "second_draw (demo_world\<lparr>drawn := drawn demo_world + 32\<rparr>) \<noteq> second_draw demo_world"
  by code_simp+

lemma demo_salts:
  "toString_hex (first_draw demo_world) = ''030a11181f262d343b424950575e656c''"
  "toString_hex (first_draw (demo_world\<lparr>drawn := drawn demo_world + 32\<rparr>))
     = ''e3eaf1f8ff060d141b222930373e454c''"
  by code_simp+

lemma demo_encrypt_bad_output:
  "encryptEnvFile demo_runtime demo_world ''.env'' ''../out.encrypted'' ''ENV_CRYPTO_KEY'' =
     (Inl INVALID_PATH, demo_world\<lparr>drawn := 32\<rparr>,
      \<lparr>keyBuffer = Some (replicate 32 0), salt = Some (replicate 16 0)\<rparr>)"
proof -
  obtain kb where kdf: "scryptSync demo_runtime ''mkNA802Hqwxpl6c0'' (first_draw demo_world) 32 = Inr kb"
    and kl: "length kb = 32"
    using demo_kdf_contract unfolding kdf_contract_def by blast
  obtain content authTag where
    enc: "cipher_gcm demo_runtime kb (second_draw demo_world) demo_text = Inr (content, authTag)"
    using demo_aead_contract kl second_draw_length [of demo_world] unfolding aead_contract_def by blast
  have d: "drawn demo_world = 0" by (simp add: demo_world_def)
  show ?thesis
    using encrypt_bad_output [OF demo_key demo_key_ne demo_paths(1) demo_files(1) kdf enc demo_paths(6)] kl d
    by simp
qed

lemma demo_decrypt_frame:
  "snd (decryptEnvFile demo_runtime
          (fst (snd (encryptEnvFile demo_runtime demo_world ''.env'' ''.env.encrypted'' ''ENV_CRYPTO_KEY'')))
          ''.env.encrypted'' ''ENV_CRYPTO_KEY'')
   = \<lparr>keyBuffer = Some (replicate 32 0), salt = Some (first_draw demo_world)\<rparr>"
proof -
  have n: "demo_text \<noteq> []" by (simp add: demo_text_def)
  from roundtrip [OF demo_kdf_contract demo_aead_contract demo_json_contract
          demo_key demo_key_ne demo_paths(1) demo_files(1) demo_paths(4) demo_files(4)]
  obtain content authTag where
    "encryptEnvFile demo_runtime demo_world ''.env'' ''.env.encrypted'' ''ENV_CRYPTO_KEY'' =
        (Inr (), after_encrypt demo_world ''/home/user/project/.env.encrypted'' ''.env.encrypted''
                   (written_container demo_world content authTag),
         \<lparr>keyBuffer = Some (replicate 32 0), salt = Some (replicate 16 0)\<rparr>)"
    and "decryptEnvFile demo_runtime
          (after_encrypt demo_world ''/home/user/project/.env.encrypted'' ''.env.encrypted''
                   (written_container demo_world content authTag))
          ''.env.encrypted'' ''ENV_CRYPTO_KEY''
        = (if demo_text = [] then (Inl INVALID_FORMAT, \<lparr>keyBuffer = None, salt = None\<rparr>)
           else (Inr (parse_env demo_text),
                 \<lparr>keyBuffer = Some (replicate 32 0), salt = Some (first_draw demo_world)\<rparr>))"
    by blast
  with n show ?thesis by simp
qed

lemma demo_encrypt_writes:
  "files (fst (snd (encryptEnvFile demo_runtime demo_world ''.env'' ''.env.encrypted'' ''ENV_CRYPTO_KEY'')))
     ''/home/user/project/.env.encrypted''
   = Some (JSON_stringify_record (container_record ''030a11181f262d343b424950575e656c'' ''737a81888f969da4abb2b9c0c7ced5dc''
        ''9d97aeb8ccccc0dacecbd5dfbfff151fbdbac0d6ecece0faee222838414d1367d8e4e7e897'' ''d2dbe4edf6ff08111a232c353e475059''))"
proof -
  have "demo_kdf ''mkNA802Hqwxpl6c0'' (first_draw demo_world) 32 = Inr demo_derived_key"
    by code_simp
  then have k: "scryptSync demo_runtime ''mkNA802Hqwxpl6c0'' (first_draw demo_world) 32 = Inr demo_derived_key"
    by (simp add: demo_runtime_def)
  have "demo_cipher demo_derived_key (second_draw demo_world) demo_text
        = Inr (''9d97aeb8ccccc0dacecbd5dfbfff151fbdbac0d6ecece0faee222838414d1367d8e4e7e897'', Buffer_from_hex_string ''d2dbe4edf6ff08111a232c353e475059'')"
    by code_simp
  then have c: "cipher_gcm demo_runtime demo_derived_key (second_draw demo_world) demo_text
        = Inr (''9d97aeb8ccccc0dacecbd5dfbfff151fbdbac0d6ecece0faee222838414d1367d8e4e7e897'', Buffer_from_hex_string ''d2dbe4edf6ff08111a232c353e475059'')"
    by (simp add: demo_runtime_def)
  have i: "toString_hex (second_draw demo_world) = ''737a81888f969da4abb2b9c0c7ced5dc''" by code_simp
  have a: "toString_hex (Buffer_from_hex_string ''d2dbe4edf6ff08111a232c353e475059'') = ''d2dbe4edf6ff08111a232c353e475059''" by code_simp
  have "written_container demo_world ''9d97aeb8ccccc0dacecbd5dfbfff151fbdbac0d6ecece0faee222838414d1367d8e4e7e897'' (Buffer_from_hex_string ''d2dbe4edf6ff08111a232c353e475059'')
        = JSON_stringify_record (container_record ''030a11181f262d343b424950575e656c'' ''737a81888f969da4abb2b9c0c7ced5dc''
            ''9d97aeb8ccccc0dacecbd5dfbfff151fbdbac0d6ecece0faee222838414d1367d8e4e7e897'' ''d2dbe4edf6ff08111a232c353e475059'')"
    unfolding written_container_def demo_salts(1) i a ..
  then show ?thesis
    unfolding encrypt_run [OF demo_key demo_key_ne demo_paths(1) demo_files(1) k c demo_paths(4) demo_files(4)]
    by (simp add: after_encrypt_simps)
qed

subsection \<open>Failures of \<open>decryptEnvFile\<close>\<close>

text \<open>
  C3. When \<open>JSON.parse\<close> rejects the text of the container file, \<open>decryptEnvFile\<close>
  fails with the very exception \<open>JSON.parse\<close> threw, a \<open>SyntaxError\<close>: it is not an
  \<open>EnvCryptoError\<close> and carries no code. No buffer has been created by then.
\<close>

theorem malformed_container_error:
  assumes "env w keyEnvVar = Some key" and "key \<noteq> []"
    and "validatePath (cwd w) sourcePath = Inr src" and "files w src = Some text"
    and "JSON_parse rt text = Inl e"
  shows "decryptEnvFile rt w sourcePath keyEnvVar = (Inl (Native e), \<lparr>keyBuffer = None, salt = None\<rparr>)"
  using assms
  by (simp add: decryptEnvFile_def decrypt_try_def readFileSync_def clearBuffer_def Let_def)

theorem malformed_container_error_witness:
  "env demo_world ''ENV_CRYPTO_KEY'' = Some ''mkNA802Hqwxpl6c0''
   \<and> validatePath (cwd demo_world) ''.env.malformed.encrypted''
       = Inr ''/home/user/project/.env.malformed.encrypted''
   \<and> files demo_world ''/home/user/project/.env.malformed.encrypted'' = Some ''This is not valid JSON''
   \<and> JSON_parse demo_runtime ''This is not valid JSON'' = Inl (SyntaxError ''Unexpected token'')
   \<and> decryptEnvFile demo_runtime demo_world ''.env.malformed.encrypted'' ''ENV_CRYPTO_KEY''
       = (Inl (Native (SyntaxError ''Unexpected token'')), \<lparr>keyBuffer = None, salt = None\<rparr>)"
proof -
  have p: "validatePath ''/home/user/project'' ''.env.malformed.encrypted''
       = Inr ''/home/user/project/.env.malformed.encrypted''" by code_simp
  have f: "files demo_world ''/home/user/project/.env.malformed.encrypted'' = Some ''This is not valid JSON''"
    by (simp add: demo_world_def)
  have "demo_JSON_parse ''This is not valid JSON'' = Inl (SyntaxError ''Unexpected token'')"
    by code_simp
  then have j: "JSON_parse demo_runtime ''This is not valid JSON'' = Inl (SyntaxError ''Unexpected token'')"
    by (simp add: demo_runtime_def)
  from p have p': "validatePath (cwd demo_world) ''.env.malformed.encrypted''
       = Inr ''/home/user/project/.env.malformed.encrypted''" by (simp add: demo_cwd)
  show ?thesis
    using malformed_container_error [OF demo_key _ p' f j] demo_key p' f j by simp
qed

text \<open>
  C5. When the container file parses to an object that has no \<open>salt\<close>, no \<open>iv\<close>, no
  \<open>content\<close> or no \<open>authTag\<close> property, \<open>decryptEnvFile\<close> fails with the
  \<open>EnvCryptoError\<close> of code \<open>INVALID_FORMAT\<close>, before any buffer is created.
\<close>

theorem missing_field_invalid_format:
  assumes "env w keyEnvVar = Some key" and "key \<noteq> []"
    and "validatePath (cwd w) sourcePath = Inr src" and "files w src = Some text"
    and "JSON_parse rt text = Inr (JObject kvs)"
    and "map_of kvs ''salt'' = None \<or> map_of kvs ''iv'' = None \<or>
         map_of kvs ''content'' = None \<or> map_of kvs ''authTag'' = None"
  shows "decryptEnvFile rt w sourcePath keyEnvVar = (Inl INVALID_FORMAT, \<lparr>keyBuffer = None, salt = None\<rparr>)
       \<and> code INVALID_FORMAT = ''INVALID_FORMAT''"
  using assms
  by (auto simp: decryptEnvFile_def decrypt_try_def readFileSync_def clearBuffer_def Let_def
      get_property_def truthy_def INVALID_FORMAT_def split: option.splits)

theorem missing_field_invalid_format_witness:
  "JSON_parse demo_runtime (the (files demo_world ''/home/user/project/no-salt.encrypted''))
       = Inr (JObject [(''iv'', JString ''test''), (''content'', JString ''test''), (''authTag'', JString ''test'')])
   \<and> map_of [(''iv'', JString ''test''), (''content'', JString ''test''), (''authTag'', JString ''test'')] ''salt'' = None
   \<and> decryptEnvFile demo_runtime demo_world ''no-salt.encrypted'' ''ENV_CRYPTO_KEY''
       = (Inl INVALID_FORMAT, \<lparr>keyBuffer = None, salt = None\<rparr>)
   \<and> JSON_parse demo_runtime (the (files demo_world ''/home/user/project/no-iv.encrypted''))
       = Inr (JObject [(''salt'', JString ''test''), (''content'', JString ''test''), (''authTag'', JString ''test'')])
   \<and> map_of [(''salt'', JString ''test''), (''content'', JString ''test''), (''authTag'', JString ''test'')] ''iv'' = None
   \<and> decryptEnvFile demo_runtime demo_world ''no-iv.encrypted'' ''ENV_CRYPTO_KEY''
       = (Inl INVALID_FORMAT, \<lparr>keyBuffer = None, salt = None\<rparr>)
   \<and> JSON_parse demo_runtime (the (files demo_world ''/home/user/project/no-content.encrypted''))
       = Inr (JObject [(''salt'', JString ''test''), (''iv'', JString ''test''), (''authTag'', JString ''test'')])
   \<and> map_of [(''salt'', JString ''test''), (''iv'', JString ''test''), (''authTag'', JString ''test'')] ''content'' = None
   \<and> decryptEnvFile demo_runtime demo_world ''no-content.encrypted'' ''ENV_CRYPTO_KEY''
       = (Inl INVALID_FORMAT, \<lparr>keyBuffer = None, salt = None\<rparr>)
   \<and> JSON_parse demo_runtime (the (files demo_world ''/home/user/project/no-authTag.encrypted''))
       = Inr (JObject [(''salt'', JString ''test''), (''iv'', JString ''test''), (''content'', JString ''test'')])
   \<and> map_of [(''salt'', JString ''test''), (''iv'', JString ''test''), (''content'', JString ''test'')] ''authTag'' = None
   \<and> decryptEnvFile demo_runtime demo_world ''no-authTag.encrypted'' ''ENV_CRYPTO_KEY''
       = (Inl INVALID_FORMAT, \<lparr>keyBuffer = None, salt = None\<rparr>)"
proof -
  have p1: "validatePath (cwd demo_world) ''no-salt.encrypted'' = Inr ''/home/user/project/no-salt.encrypted''"
    unfolding demo_cwd by code_simp
  have f1: "files demo_world ''/home/user/project/no-salt.encrypted'' = Some ''{\"iv\":\"test\",\"content\":\"test\",\"authTag\":\"test\"}''"
    by (simp add: demo_world_def)
  have "demo_JSON_parse ''{\"iv\":\"test\",\"content\":\"test\",\"authTag\":\"test\"}'' = Inr (JObject [(''iv'', JString ''test''), (''content'', JString ''test''), (''authTag'', JString ''test'')])"
    by code_simp
  then have j1: "JSON_parse demo_runtime ''{\"iv\":\"test\",\"content\":\"test\",\"authTag\":\"test\"}'' = Inr (JObject [(''iv'', JString ''test''), (''content'', JString ''test''), (''authTag'', JString ''test'')])"
    by (simp add: demo_runtime_def)
  have m1: "map_of [(''iv'', JString ''test''), (''content'', JString ''test''), (''authTag'', JString ''test'')] ''salt'' = None \<or> map_of [(''iv'', JString ''test''), (''content'', JString ''test''), (''authTag'', JString ''test'')] ''iv'' = None \<or>
         map_of [(''iv'', JString ''test''), (''content'', JString ''test''), (''authTag'', JString ''test'')] ''content'' = None \<or> map_of [(''iv'', JString ''test''), (''content'', JString ''test''), (''authTag'', JString ''test'')] ''authTag'' = None"
    by simp
  have p2: "validatePath (cwd demo_world) ''no-iv.encrypted'' = Inr ''/home/user/project/no-iv.encrypted''"
    unfolding demo_cwd by code_simp
  have f2: "files demo_world ''/home/user/project/no-iv.encrypted'' = Some ''{\"salt\":\"test\",\"content\":\"test\",\"authTag\":\"test\"}''"
    by (simp add: demo_world_def)
  have "demo_JSON_parse ''{\"salt\":\"test\",\"content\":\"test\",\"authTag\":\"test\"}'' = Inr (JObject [(''salt'', JString ''test''), (''content'', JString ''test''), (''authTag'', JString ''test'')])"
    by code_simp
  then have j2: "JSON_parse demo_runtime ''{\"salt\":\"test\",\"content\":\"test\",\"authTag\":\"test\"}'' = Inr (JObject [(''salt'', JString ''test''), (''content'', JString ''test''), (''authTag'', JString ''test'')])"
    by (simp add: demo_runtime_def)
  have m2: "map_of [(''salt'', JString ''test''), (''content'', JString ''test''), (''authTag'', JString ''test'')] ''salt'' = None \<or> map_of [(''salt'', JString ''test''), (''content'', JString ''test''), (''authTag'', JString ''test'')] ''iv'' = None \<or>
         map_of [(''salt'', JString ''test''), (''content'', JString ''test''), (''authTag'', JString ''test'')] ''content'' = None \<or> map_of [(''salt'', JString ''test''), (''content'', JString ''test''), (''authTag'', JString ''test'')] ''authTag'' = None"
    by simp
  have p3: "validatePath (cwd demo_world) ''no-content.encrypted'' = Inr ''/home/user/project/no-content.encrypted''"
    unfolding demo_cwd by code_simp
  have f3: "files demo_world ''/home/user/project/no-content.encrypted'' = Some ''{\"salt\":\"test\",\"iv\":\"test\",\"authTag\":\"test\"}''"
    by (simp add: demo_world_def)
  have "demo_JSON_parse ''{\"salt\":\"test\",\"iv\":\"test\",\"authTag\":\"test\"}'' = Inr (JObject [(''salt'', JString ''test''), (''iv'', JString ''test''), (''authTag'', JString ''test'')])"
    by code_simp
  then have j3: "JSON_parse demo_runtime ''{\"salt\":\"test\",\"iv\":\"test\",\"authTag\":\"test\"}'' = Inr (JObject [(''salt'', JString ''test''), (''iv'', JString ''test''), (''authTag'', JString ''test'')])"
    by (simp add: demo_runtime_def)
  have m3: "map_of [(''salt'', JString ''test''), (''iv'', JString ''test''), (''authTag'', JString ''test'')] ''salt'' = None \<or> map_of [(''salt'', JString ''test''), (''iv'', JString ''test''), (''authTag'', JString ''test'')] ''iv'' = None \<or>
         map_of [(''salt'', JString ''test''), (''iv'', JString ''test''), (''authTag'', JString ''test'')] ''content'' = None \<or> map_of [(''salt'', JString ''test''), (''iv'', JString ''test''), (''authTag'', JString ''test'')] ''authTag'' = None"
    by simp
  have p4: "validatePath (cwd demo_world) ''no-authTag.encrypted'' = Inr ''/home/user/project/no-authTag.encrypted''"
    unfolding demo_cwd by code_simp
  have f4: "files demo_world ''/home/user/project/no-authTag.encrypted'' = Some ''{\"salt\":\"test\",\"iv\":\"test\",\"content\":\"test\"}''"
    by (simp add: demo_world_def)
  have "demo_JSON_parse ''{\"salt\":\"test\",\"iv\":\"test\",\"content\":\"test\"}'' = Inr (JObject [(''salt'', JString ''test''), (''iv'', JString ''test''), (''content'', JString ''test'')])"
    by code_simp
  then have j4: "JSON_parse demo_runtime ''{\"salt\":\"test\",\"iv\":\"test\",\"content\":\"test\"}'' = Inr (JObject [(''salt'', JString ''test''), (''iv'', JString ''test''), (''content'', JString ''test'')])"
    by (simp add: demo_runtime_def)
  have m4: "map_of [(''salt'', JString ''test''), (''iv'', JString ''test''), (''content'', JString ''test'')] ''salt'' = None \<or> map_of [(''salt'', JString ''test''), (''iv'', JString ''test''), (''content'', JString ''test'')] ''iv'' = None \<or>
         map_of [(''salt'', JString ''test''), (''iv'', JString ''test''), (''content'', JString ''test'')] ''content'' = None \<or> map_of [(''salt'', JString ''test''), (''iv'', JString ''test''), (''content'', JString ''test'')] ''authTag'' = None"
    by simp
  show ?thesis
    using missing_field_invalid_format [OF demo_key _ p1 f1 j1 m1] f1 j1
      missing_field_invalid_format [OF demo_key _ p2 f2 j2 m2] f2 j2
      missing_field_invalid_format [OF demo_key _ p3 f3 j3 m3] f3 j3
      missing_field_invalid_format [OF demo_key _ p4 f4 j4 m4] f4 j4
    by simp
qed

text \<open>
  C2. When the cipher of the runtime rejects the container (the tag does not verify),
  \<open>decryptEnvFile\<close> fails with the very exception the cipher threw: it is not an
  \<open>EnvCryptoError\<close> and carries no code. The key buffer has been cleared by then.
\<close>

theorem failed_authentication_error:
  assumes "env w keyEnvVar = Some key" and "key \<noteq> []"
    and "validatePath (cwd w) sourcePath = Inr src" and "files w src = Some text"
    and "JSON_parse rt text = Inr (container_json saltHex ivHex content authTagHex)"
    and "saltHex \<noteq> []" and "ivHex \<noteq> []" and "content \<noteq> []" and "authTagHex \<noteq> []"
    and "scryptSync rt key (Buffer_from_hex_string saltHex) 32 = Inr keyBytes"
    and "decipher_gcm rt keyBytes (Buffer_from_hex_string ivHex)
           (Buffer_from_hex_string authTagHex) (JString content) = Inl e"
  shows "decryptEnvFile rt w sourcePath keyEnvVar =
           (Inl (Native e),
            \<lparr>keyBuffer = Some (replicate (length keyBytes) 0),
             salt = Some (Buffer_from_hex_string saltHex)\<rparr>)"
  using decrypt_run [OF assms(1-10)] assms(11) by simp

theorem failed_authentication_error_witness:
  "files (fst (snd (encryptEnvFile demo_runtime demo_world ''.env'' ''.env.encrypted'' ''ENV_CRYPTO_KEY'')))
     ''/home/user/project/.env.encrypted''
     = Some (JSON_stringify_record (container_record ''030a11181f262d343b424950575e656c'' ''737a81888f969da4abb2b9c0c7ced5dc''
          ''9d97aeb8ccccc0dacecbd5dfbfff151fbdbac0d6ecece0faee222838414d1367d8e4e7e897'' ''d2dbe4edf6ff08111a232c353e475059''))
   \<and> files demo_world ''/home/user/project/tampered.encrypted''
     = Some (JSON_stringify_record (container_record ''030a11181f262d343b424950575e656c'' ''737a81888f969da4abb2b9c0c7ced5dc''
          ''9d97aeb8ccccc0dacecbd5dfbfff151fbdbac0d6ecece0faee222838414d1367d8e4e7e897'' ''d3dbe4edf6ff08111a232c353e475059''))
   \<and> decipher_gcm demo_runtime demo_derived_key
         (Buffer_from_hex_string ''737a81888f969da4abb2b9c0c7ced5dc'') (Buffer_from_hex_string ''d2dbe4edf6ff08111a232c353e475059'')
         (JString ''9d97aeb8ccccc0dacecbd5dfbfff151fbdbac0d6ecece0faee222838414d1367d8e4e7e897'') = Inr demo_text
   \<and> decipher_gcm demo_runtime demo_derived_key
         (Buffer_from_hex_string ''737a81888f969da4abb2b9c0c7ced5dc'') (Buffer_from_hex_string ''d3dbe4edf6ff08111a232c353e475059'')
         (JString ''9d97aeb8ccccc0dacecbd5dfbfff151fbdbac0d6ecece0faee222838414d1367d8e4e7e897'')
       = Inl (CryptoError ''Unsupported state or unable to authenticate data'')
   \<and> decryptEnvFile demo_runtime demo_world ''tampered.encrypted'' ''ENV_CRYPTO_KEY''
       = (Inl (Native (CryptoError ''Unsupported state or unable to authenticate data'')),
          \<lparr>keyBuffer = Some (replicate 32 0),
           salt = Some (Buffer_from_hex_string ''030a11181f262d343b424950575e656c'')\<rparr>)"
proof -
  have f: "files demo_world ''/home/user/project/tampered.encrypted''
     = Some (JSON_stringify_record (container_record ''030a11181f262d343b424950575e656c'' ''737a81888f969da4abb2b9c0c7ced5dc''
          ''9d97aeb8ccccc0dacecbd5dfbfff151fbdbac0d6ecece0faee222838414d1367d8e4e7e897'' ''d3dbe4edf6ff08111a232c353e475059''))"
    by (simp add: demo_world_def)
  have h: "list_all is_hex_char ''030a11181f262d343b424950575e656c''" "list_all is_hex_char ''737a81888f969da4abb2b9c0c7ced5dc''"
    "list_all is_hex_char ''9d97aeb8ccccc0dacecbd5dfbfff151fbdbac0d6ecece0faee222838414d1367d8e4e7e897''" "list_all is_hex_char ''d3dbe4edf6ff08111a232c353e475059''"
    by code_simp+
  have j: "JSON_parse demo_runtime (JSON_stringify_record (container_record ''030a11181f262d343b424950575e656c'' ''737a81888f969da4abb2b9c0c7ced5dc''
          ''9d97aeb8ccccc0dacecbd5dfbfff151fbdbac0d6ecece0faee222838414d1367d8e4e7e897'' ''d3dbe4edf6ff08111a232c353e475059''))
      = Inr (container_json ''030a11181f262d343b424950575e656c'' ''737a81888f969da4abb2b9c0c7ced5dc'' ''9d97aeb8ccccc0dacecbd5dfbfff151fbdbac0d6ecece0faee222838414d1367d8e4e7e897'' ''d3dbe4edf6ff08111a232c353e475059'')"
    using demo_json_contract h unfolding json_contract_def by blast
  have "demo_kdf ''mkNA802Hqwxpl6c0'' (Buffer_from_hex_string ''030a11181f262d343b424950575e656c'') 32 = Inr demo_derived_key"
    by code_simp
  then have k: "scryptSync demo_runtime ''mkNA802Hqwxpl6c0'' (Buffer_from_hex_string ''030a11181f262d343b424950575e656c'') 32 = Inr demo_derived_key"
    by (simp add: demo_runtime_def)
  have "demo_decipher demo_derived_key
         (Buffer_from_hex_string ''737a81888f969da4abb2b9c0c7ced5dc'') (Buffer_from_hex_string ''d3dbe4edf6ff08111a232c353e475059'')
         (JString ''9d97aeb8ccccc0dacecbd5dfbfff151fbdbac0d6ecece0faee222838414d1367d8e4e7e897'')
       = Inl (CryptoError ''Unsupported state or unable to authenticate data'')"
    by code_simp
  then have d: "decipher_gcm demo_runtime demo_derived_key
         (Buffer_from_hex_string ''737a81888f969da4abb2b9c0c7ced5dc'') (Buffer_from_hex_string ''d3dbe4edf6ff08111a232c353e475059'')
         (JString ''9d97aeb8ccccc0dacecbd5dfbfff151fbdbac0d6ecece0faee222838414d1367d8e4e7e897'')
       = Inl (CryptoError ''Unsupported state or unable to authenticate data'')"
    by (simp add: demo_runtime_def)
  have "demo_decipher demo_derived_key
         (Buffer_from_hex_string ''737a81888f969da4abb2b9c0c7ced5dc'') (Buffer_from_hex_string ''d2dbe4edf6ff08111a232c353e475059'')
         (JString ''9d97aeb8ccccc0dacecbd5dfbfff151fbdbac0d6ecece0faee222838414d1367d8e4e7e897'') = Inr demo_text"
    by code_simp
  then have g: "decipher_gcm demo_runtime demo_derived_key
         (Buffer_from_hex_string ''737a81888f969da4abb2b9c0c7ced5dc'') (Buffer_from_hex_string ''d2dbe4edf6ff08111a232c353e475059'')
         (JString ''9d97aeb8ccccc0dacecbd5dfbfff151fbdbac0d6ecece0faee222838414d1367d8e4e7e897'') = Inr demo_text"
    by (simp add: demo_runtime_def)
  have n: "\<And>c s. (c # s :: string) \<noteq> []" by simp
  have l: "length demo_derived_key = 32" by (simp add: demo_derived_key_def)
  note r = failed_authentication_error [OF demo_key demo_key_ne demo_paths(5) f j n n n n k d,
      unfolded l]
  show ?thesis by (intro conjI demo_encrypt_writes f g d r)
qed

subsection \<open>Encrypting, then decrypting\<close>

text \<open>
  C1. Under the contracts of the runtime, \<open>decryptEnvFile\<close> on the container that
  \<open>encryptEnvFile\<close> wrote returns the mapping the parser gives for the plaintext,
  for every plaintext but the empty one: for the empty plaintext the container holds
  the empty string as \<open>content\<close>, and \<open>decryptEnvFile\<close> fails with
  \<open>INVALID_FORMAT\<close>.
\<close>

theorem roundtrip_except_empty:
  assumes "kdf_contract rt" and "aead_contract rt" and "json_contract rt"
    and "env w keyEnvVar = Some key" and "key \<noteq> []"
    and "validatePath (cwd w) sourcePath = Inr src" and "files w src = Some plaintext"
    and "validatePath (cwd w) outputPath = Inr out" and "write_error w out = None"
  shows "fst (encryptEnvFile rt w sourcePath outputPath keyEnvVar) = Inr ()
       \<and> fst (decryptEnvFile rt (fst (snd (encryptEnvFile rt w sourcePath outputPath keyEnvVar)))
               outputPath keyEnvVar)
          = (if plaintext = [] then Inl INVALID_FORMAT else Inr (parse_env plaintext))"
proof -
  from roundtrip [OF assms] obtain content authTag where
    "encryptEnvFile rt w sourcePath outputPath keyEnvVar =
        (Inr (), after_encrypt w out outputPath (written_container w content authTag),
         \<lparr>keyBuffer = Some (replicate 32 0), salt = Some (replicate 16 0)\<rparr>)"
    and "decryptEnvFile rt (after_encrypt w out outputPath (written_container w content authTag))
             outputPath keyEnvVar
          = (if plaintext = [] then (Inl INVALID_FORMAT, \<lparr>keyBuffer = None, salt = None\<rparr>)
             else (Inr (parse_env plaintext),
                   \<lparr>keyBuffer = Some (replicate 32 0), salt = Some (first_draw w)\<rparr>))"
    by blast
  then show ?thesis by simp
qed

theorem roundtrip_except_empty_witness:
  "fst (encryptEnvFile demo_runtime demo_world ''empty.env'' ''.env.encrypted'' ''ENV_CRYPTO_KEY'') = Inr ()
   \<and> fst (decryptEnvFile demo_runtime
           (fst (snd (encryptEnvFile demo_runtime demo_world ''empty.env'' ''.env.encrypted'' ''ENV_CRYPTO_KEY'')))
           ''.env.encrypted'' ''ENV_CRYPTO_KEY'') = Inl INVALID_FORMAT
   \<and> parse_env [] = Map.empty
   \<and> fst (encryptEnvFile demo_runtime demo_world ''.env'' ''.env.encrypted'' ''ENV_CRYPTO_KEY'') = Inr ()
   \<and> fst (decryptEnvFile demo_runtime
           (fst (snd (encryptEnvFile demo_runtime demo_world ''.env'' ''.env.encrypted'' ''ENV_CRYPTO_KEY'')))
           ''.env.encrypted'' ''ENV_CRYPTO_KEY'')
       = Inr [''TEST_VAR'' \<mapsto> ''123'', ''ANOTHER_VAR'' \<mapsto> ''hello,world'']"
proof -
  have e: "parse_env [] = Map.empty" by (simp add: parse_env_def parse_line_def)
  have n: "demo_text \<noteq> []" by (simp add: demo_text_def)
  note a = roundtrip_except_empty [OF demo_kdf_contract demo_aead_contract demo_json_contract
          demo_key demo_key_ne demo_paths(2) demo_files(2) demo_paths(4) demo_files(4)]
  note b = roundtrip_except_empty [OF demo_kdf_contract demo_aead_contract demo_json_contract
          demo_key demo_key_ne demo_paths(1) demo_files(1) demo_paths(4) demo_files(4)]
  from a b e n demo_parse_text show ?thesis by simp
qed

subsection \<open>Clearing of the buffers\<close>

text \<open>
  C7. On every way out of \<open>encryptEnvFile\<close> the buffer of the derived key and the
  buffer of the salt, where they were created, hold only zeros. On every way out of
  \<open>decryptEnvFile\<close> the buffer of the derived key, where it was created, holds only
  zeros; the buffer of the salt is left as it was decoded from the container.
\<close>

theorem key_material_zeroed:
  "zeroed (keyBuffer (snd (snd (encryptEnvFile rt w sourcePath outputPath keyEnvVar))))
   \<and> zeroed (salt (snd (snd (encryptEnvFile rt w sourcePath outputPath keyEnvVar))))
   \<and> zeroed (keyBuffer (snd (decryptEnvFile rt w sourcePath keyEnvVar)))
   \<and> salt (snd (decryptEnvFile rt w sourcePath keyEnvVar))
       = salt (snd (decrypt_try rt w sourcePath keyEnvVar))"
  using encrypt_frame_zeroed decrypt_frame_zeroed
  by (simp add: decryptEnvFile_def split: prod.splits)

theorem key_material_zeroed_witness:
  "keyBuffer (snd (snd (encryptEnvFile demo_runtime demo_world ''.env'' ''../out.encrypted'' ''ENV_CRYPTO_KEY'')))
     = Some (replicate 32 0)
   \<and> zeroed (Some (replicate 32 0))
   \<and> salt (snd (snd (encryptEnvFile demo_runtime demo_world ''.env'' ''../out.encrypted'' ''ENV_CRYPTO_KEY'')))
     = Some (replicate 16 0)
   \<and> zeroed (Some (replicate 16 0))
   \<and> zeroed (keyBuffer (snd (decryptEnvFile demo_runtime demo_world ''.env'' ''ENV_CRYPTO_KEY'')))"
  using key_material_zeroed [of demo_runtime demo_world "''.env''" "''../out.encrypted''" "''ENV_CRYPTO_KEY''"]
    demo_encrypt_bad_output
  by simp

theorem key_material_zeroed_counterexample:
  "\<not> zeroed (salt (snd (decryptEnvFile demo_runtime
          (fst (snd (encryptEnvFile demo_runtime demo_world ''.env'' ''.env.encrypted'' ''ENV_CRYPTO_KEY'')))
          ''.env.encrypted'' ''ENV_CRYPTO_KEY'')))"
proof -
  have "first_draw demo_world \<noteq> replicate 16 0"
    by code_simp
  then show ?thesis
    by (simp add: demo_decrypt_frame zeroed_def first_draw_length)
qed

subsection \<open>The order of the checks in \<open>encryptEnvFile\<close>\<close>




subsection \<open>Two encryptions of one plaintext\<close>

text \<open>
  C9. Two calls of \<open>encryptEnvFile\<close> on the same non-empty plaintext with the same
  passphrase, the second after the first, whose draws of salt and of nonce differ,
  write containers whose \<open>salt\<close> fields differ and whose \<open>iv\<close> fields differ, and
  \<open>decryptEnvFile\<close> returns the parser's mapping of the plaintext from either.
  Nothing is said of the \<open>content\<close> fields.
\<close>

theorem two_encryptions:
  assumes "kdf_contract rt" and "aead_contract rt" and "json_contract rt"
    and "env w keyEnvVar = Some key" and "key \<noteq> []"
    and "validatePath (cwd w) sourcePath = Inr src" and "files w src = Some plaintext"
    and "validatePath (cwd w) outputPath = Inr out" and "write_error w out = None"
    and "src \<noteq> out" and "plaintext \<noteq> []"
    and "first_draw (w\<lparr>drawn := drawn w + 32\<rparr>) \<noteq> first_draw w"
    and "second_draw (w\<lparr>drawn := drawn w + 32\<rparr>) \<noteq> second_draw w"
  shows "let w1 = fst (snd (encryptEnvFile rt w sourcePath outputPath keyEnvVar));
             w2 = fst (snd (encryptEnvFile rt w1 sourcePath outputPath keyEnvVar))
         in stored_field rt w1 out ''salt'' = Some (JString (toString_hex (first_draw w)))
          \<and> stored_field rt w2 out ''salt''
              = Some (JString (toString_hex (first_draw (w\<lparr>drawn := drawn w + 32\<rparr>))))
          \<and> stored_field rt w1 out ''salt'' \<noteq> stored_field rt w2 out ''salt''
          \<and> stored_field rt w1 out ''iv'' \<noteq> stored_field rt w2 out ''iv''
          \<and> fst (decryptEnvFile rt w1 outputPath keyEnvVar) = Inr (parse_env plaintext)
          \<and> fst (decryptEnvFile rt w2 outputPath keyEnvVar) = Inr (parse_env plaintext)"
proof -
  from two_runs [OF assms(1-10)] obtain w1 w2 content1 content2 where
    w: "fst (snd (encryptEnvFile rt w sourcePath outputPath keyEnvVar)) = w1"
       "fst (snd (encryptEnvFile rt w1 sourcePath outputPath keyEnvVar)) = w2"
    and s: "stored_field rt w1 out ''salt'' = Some (JString (toString_hex (first_draw w)))"
       "stored_field rt w2 out ''salt''
          = Some (JString (toString_hex (first_draw (w\<lparr>drawn := drawn w + 32\<rparr>))))"
    and i: "stored_field rt w1 out ''iv'' = Some (JString (toString_hex (second_draw w)))"
       "stored_field rt w2 out ''iv''
          = Some (JString (toString_hex (second_draw (w\<lparr>drawn := drawn w + 32\<rparr>))))"
    and d: "fst (decryptEnvFile rt w1 outputPath keyEnvVar)
          = (if plaintext = [] then Inl INVALID_FORMAT else Inr (parse_env plaintext))"
       "fst (decryptEnvFile rt w2 outputPath keyEnvVar)
          = (if plaintext = [] then Inl INVALID_FORMAT else Inr (parse_env plaintext))"
    by blast
  have ns: "toString_hex (first_draw w) \<noteq> toString_hex (first_draw (w\<lparr>drawn := drawn w + 32\<rparr>))"
    using assms(12) hex_inj by fastforce
  have ni: "toString_hex (second_draw w) \<noteq> toString_hex (second_draw (w\<lparr>drawn := drawn w + 32\<rparr>))"
    using assms(13) hex_inj by fastforce
  from w s i d ns ni assms(11) show ?thesis by (simp add: Let_def)
qed

theorem two_encryptions_witness:
  "let w1 = fst (snd (encryptEnvFile demo_runtime demo_world ''.env'' ''.env.encrypted'' ''ENV_CRYPTO_KEY''));
       w2 = fst (snd (encryptEnvFile demo_runtime w1 ''.env'' ''.env.encrypted'' ''ENV_CRYPTO_KEY''))
   in stored_field demo_runtime w1 ''/home/user/project/.env.encrypted'' ''salt''
        = Some (JString ''030a11181f262d343b424950575e656c'')
    \<and> stored_field demo_runtime w2 ''/home/user/project/.env.encrypted'' ''salt''
        = Some (JString ''e3eaf1f8ff060d141b222930373e454c'')
    \<and> stored_field demo_runtime w1 ''/home/user/project/.env.encrypted'' ''iv''
        \<noteq> stored_field demo_runtime w2 ''/home/user/project/.env.encrypted'' ''iv''
    \<and> fst (decryptEnvFile demo_runtime w1 ''.env.encrypted'' ''ENV_CRYPTO_KEY'')
        = Inr [''TEST_VAR'' \<mapsto> ''123'', ''ANOTHER_VAR'' \<mapsto> ''hello,world'']
    \<and> fst (decryptEnvFile demo_runtime w2 ''.env.encrypted'' ''ENV_CRYPTO_KEY'')
        = Inr [''TEST_VAR'' \<mapsto> ''123'', ''ANOTHER_VAR'' \<mapsto> ''hello,world'']"
proof -
  have o: "''/home/user/project/.env'' \<noteq> ''/home/user/project/.env.encrypted''" by simp
  have n: "demo_text \<noteq> []" by (simp add: demo_text_def)
  note t = two_encryptions [OF demo_kdf_contract demo_aead_contract demo_json_contract
      demo_key demo_key_ne demo_paths(1) demo_files(1) demo_paths(4) demo_files(4) o n demo_fresh,
      unfolded demo_salts demo_parse_text]
  then show ?thesis by (simp add: Let_def)
qed

theorem two_encryptions_counterexample:
  "let w1 = fst (snd (encryptEnvFile demo_runtime demo_world ''empty.env'' ''.env.encrypted'' ''ENV_CRYPTO_KEY''));
       w2 = fst (snd (encryptEnvFile demo_runtime w1 ''empty.env'' ''.env.encrypted'' ''ENV_CRYPTO_KEY''))
   in first_draw (demo_world\<lparr>drawn := drawn demo_world + 32\<rparr>) \<noteq> first_draw demo_world
    \<and> second_draw (demo_world\<lparr>drawn := drawn demo_world + 32\<rparr>) \<noteq> second_draw demo_world
    \<and> stored_field demo_runtime w1 ''/home/user/project/.env.encrypted'' ''content'' = Some (JString [])
    \<and> stored_field demo_runtime w2 ''/home/user/project/.env.encrypted'' ''content'' = Some (JString [])"
proof -
  have o: "''/home/user/project/empty.env'' \<noteq> ''/home/user/project/.env.encrypted''" by simp
  from two_runs [OF demo_kdf_contract demo_aead_contract demo_json_contract
      demo_key demo_key_ne demo_paths(2) demo_files(2) demo_paths(4) demo_files(4) o]
  obtain w1 w2 content1 content2 where
    "fst (snd (encryptEnvFile demo_runtime demo_world ''empty.env'' ''.env.encrypted'' ''ENV_CRYPTO_KEY'')) = w1"
    "fst (snd (encryptEnvFile demo_runtime w1 ''empty.env'' ''.env.encrypted'' ''ENV_CRYPTO_KEY'')) = w2"
    "stored_field demo_runtime w1 ''/home/user/project/.env.encrypted'' ''content'' = Some (JString content1)"
    "stored_field demo_runtime w2 ''/home/user/project/.env.encrypted'' ''content'' = Some (JString content2)"
    "content1 = []" "content2 = []"
    by auto
  with demo_fresh show ?thesis by (simp add: Let_def)
qed

end
